theory Spec2Isabelle
  imports Complex_Main
begin

section \<open>JavaScript string operations used by the document locker\<close>

text \<open>
  Strings are \<^typ>\<open>string\<close>, one \<^typ>\<open>char\<close> per code unit; the model covers
  code units below 256 (the domain on which \<open>btoa\<close> is defined).
\<close>

text \<open>\<open>s.startsWith(t)\<close>.\<close>

fun startsWith :: "string \<Rightarrow> string \<Rightarrow> bool" where
  "startsWith s [] = True"
| "startsWith [] (c # t) = False"
| "startsWith (x # s) (c # t) = (x = c \<and> startsWith s t)"

text \<open>\<open>s.includes(t)\<close>: \<open>t\<close> occurs in \<open>s\<close> as a contiguous substring.\<close>

fun str_includes :: "string \<Rightarrow> string \<Rightarrow> bool" where
  "str_includes [] t = (t = [])"
| "str_includes (x # s) t = (startsWith (x # s) t \<or> str_includes s t)"

text \<open>\<open>s.split(c)\<close> for a one-character separator; the result is never empty.\<close>

fun split :: "char \<Rightarrow> string \<Rightarrow> string list" where
  "split c [] = [[]]"
| "split c (x # xs) =
     (if x = c then [] # split c xs
      else (case split c xs of [] \<Rightarrow> [[x]] | p # ps \<Rightarrow> (x # p) # ps))"

text \<open>\<open>parts.join(sep)\<close>.\<close>

fun join :: "string \<Rightarrow> string list \<Rightarrow> string" where
  "join sep [] = []"
| "join sep [p] = p"
| "join sep (p # q # ps) = p @ sep @ join sep (q # ps)"

text \<open>\<open>s.split(c).pop()\<close>: the segment after the last separator.\<close>

definition split_pop :: "char \<Rightarrow> string \<Rightarrow> string" where
  "split_pop c s = last (split c s)"

definition is_alnum :: "char \<Rightarrow> bool" where
  "is_alnum c =
     (c \<in> set ''abcdefghijklmnopqrstuvwxyzABCDEFGHIJKLMNOPQRSTUVWXYZ0123456789'')"

text \<open>The regular-expression class \<open>\w\<close>: letters, digits and the underscore.\<close>

definition is_word :: "char \<Rightarrow> bool" where
  "is_word c = (is_alnum c \<or> c = CHR ''_'')"

text \<open>\<open>name.replace(/[^a-zA-Z0-9]/g, '_')\<close>.\<close>

definition sanitize :: "string \<Rightarrow> string" where
  "sanitize name = map (\<lambda>c. if is_alnum c then c else CHR ''_'') name"

text \<open>\<open>s.replace(/_/g, ' ')\<close>.\<close>

definition underscores_to_spaces :: "string \<Rightarrow> string" where
  "underscores_to_spaces s = map (\<lambda>c. if c = CHR ''_'' then CHR '' '' else c) s"

text \<open>
  \<open>s.replace(/\.\w+$/, '')\<close>: the leftmost position where a dot is followed by one or
  more word characters up to the end of the string; everything from there is removed.
\<close>

fun strip_word_ext :: "string \<Rightarrow> string" where
  "strip_word_ext [] = []"
| "strip_word_ext (x # xs) =
     (if x = CHR ''.'' \<and> xs \<noteq> [] \<and> list_all is_word xs then []
      else x # strip_word_ext xs)"

text \<open>\<open>s.replace(/\.[^.]+$/, '')\<close>.\<close>

fun strip_last_ext :: "string \<Rightarrow> string" where
  "strip_last_ext [] = []"
| "strip_last_ext (x # xs) =
     (if x = CHR ''.'' \<and> xs \<noteq> [] \<and> list_all (\<lambda>c. c \<noteq> CHR ''.'') xs then []
      else x # strip_last_ext xs)"

text \<open>\<open>s.replace(/^\/+/, '')\<close>.\<close>

definition strip_leading_slashes :: "string \<Rightarrow> string" where
  "strip_leading_slashes s = dropWhile (\<lambda>c. c = CHR ''/'') s"

text \<open>Decimal rendering of a non-negative integer, as in a template literal.\<close>

definition digit_char :: "nat \<Rightarrow> char" where
  "digit_char d = ''0123456789'' ! (d mod 10)"

function show_nat :: "nat \<Rightarrow> string" where
  "show_nat n = (if n < 10 then [digit_char n] else show_nat (n div 10) @ [digit_char (n mod 10)])"
  by pat_completeness auto
termination
  by (relation "measure id") auto

declare show_nat.simps [simp del]

text \<open>\<open>s.toLowerCase()\<close> on the ASCII letters.\<close>

definition lower_char :: "char \<Rightarrow> char" where
  "lower_char c =
     (case map_of (zip ''ABCDEFGHIJKLMNOPQRSTUVWXYZ'' ''abcdefghijklmnopqrstuvwxyz'') c of
        None \<Rightarrow> c | Some l \<Rightarrow> l)"

definition toLowerCase :: "string \<Rightarrow> string" where
  "toLowerCase s = map lower_char s"

text \<open>\<open>btoa\<close>: base64 with the standard alphabet and \<open>=\<close> padding.\<close>

definition b64_char :: "nat \<Rightarrow> char" where
  "b64_char n =
     ''ABCDEFGHIJKLMNOPQRSTUVWXYZabcdefghijklmnopqrstuvwxyz0123456789+/'' ! (n mod 64)"

fun btoa :: "string \<Rightarrow> string" where
  "btoa [] = []"
| "btoa [a] =
     (let n = of_char a * 16
      in [b64_char (n div 64), b64_char n, CHR ''='', CHR ''=''])"
| "btoa [a, b] =
     (let n = of_char a * 1024 + of_char b * 4
      in [b64_char (n div 4096), b64_char (n div 64), b64_char n, CHR ''=''])"
| "btoa (a # b # c # rest) =
     (let n = of_char a * 65536 + of_char b * 256 + of_char c
      in [b64_char (n div 262144), b64_char (n div 4096), b64_char (n div 64), b64_char n]
         @ btoa rest)"

section \<open>The backing services\<close>

text \<open>
  The application keeps no authoritative state of its own: every operation is a call to
  the storage bucket \<open>documents\<close> or to a table of the database. The model threads
  both through the operations as one record. A call either fails, returning an error
  object, or answers from the current contents; which calls fail is a field of the
  record, one entry per call site of the source. The tables hold the rows the caller
  may read and write: the row-level policies of the database are applied before the
  application sees a row.
\<close>

datatype call =
    StorageUpload | StorageListRegular | StorageListPrivate
  | StorageRemove | StorageAdminRemove | StorageCreateSignedUrl
  | DeletedInsert | DeletedDelete | DeletedSelectTrash | DeletedFetchSingle
  | DeletedDeletePermanent | DeletedSelectNames
  | SharesInsert | SharesSelectSingle | SharesSelectAll | SharesUpdate

text \<open>
  A thrown value: an error object returned by a service call, or \<open>new Error(message)\<close>.
\<close>

datatype error = SupabaseError string | Error string

text \<open>An object of the bucket: its key and \<open>metadata?.size\<close>.\<close>

record stored_object =
  so_key :: string
  so_size :: "nat option"

text \<open>An entry returned by \<open>storage.list(folder)\<close>.\<close>

record file_object =
  fo_name :: string
  fo_size :: "nat option"

text \<open>
  A row of \<open>deleted_documents\<close> (\<open>id\<close>, \<open>user_id\<close>, \<open>document_path\<close>,
  \<open>document_name\<close>, \<open>deleted_at\<close> in milliseconds).
\<close>

record deleted_row =
  dr_id :: string
  dr_user_id :: string
  dr_document_path :: string
  dr_document_name :: string
  dr_deleted_at :: int

text \<open>
  A row of \<open>document_shares\<close>; \<open>created_at\<close> and \<open>updated_at\<close> are never read
  by the application and are left out.
\<close>

record share_row =
  sh_id :: string
  sh_user_id :: string
  sh_document_path :: string
  sh_share_token :: string
  sh_is_public :: bool
  sh_expires_at :: "int option"
  sh_password_hash :: "string option"
  sh_allow_download :: bool
  sh_access_count :: int

text \<open>
  The bucket is kept in listing order (\<open>created_at\<close> descending), so an upload adds
  at the front.
\<close>

record backend =
  bucket :: "stored_object list"
  deleted_documents :: "deleted_row list"
  document_shares :: "share_row list"
  fault :: "call \<Rightarrow> string option"
  supabaseUrl :: string

text \<open>\<open>storage.from("documents").getPublicUrl(path)\<close>: a pure string computation.\<close>

definition getPublicUrl :: "backend \<Rightarrow> string \<Rightarrow> string" where
  "getPublicUrl b path = supabaseUrl b @ ''/storage/v1/object/public/documents/'' @ path"

text \<open>The key lies directly in the folder: \<open>folder/name\<close> with no further slash.\<close>

definition in_folder :: "string \<Rightarrow> string \<Rightarrow> bool" where
  "in_folder folder key =
     (startsWith key (folder @ ''/'') \<and> drop (length folder + 1) key \<noteq> []
      \<and> CHR ''/'' \<notin> set (drop (length folder + 1) key))"

text \<open>\<open>storage.list(folder, { limit: 100, sortBy: created_at desc })\<close>.\<close>

definition storage_list :: "call \<Rightarrow> string \<Rightarrow> backend \<Rightarrow> error + file_object list" where
  "storage_list c folder b =
     (case fault b c of
        Some msg \<Rightarrow> Inl (SupabaseError msg)
      | None \<Rightarrow>
          Inr (take 100
                (map (\<lambda>ob. \<lparr>fo_name = drop (length folder + 1) (so_key ob), fo_size = so_size ob\<rparr>)
                     (filter (\<lambda>ob. in_folder folder (so_key ob)) (bucket b)))))"

text \<open>\<open>storage.remove(paths)\<close>; the callers never look at its error.\<close>

definition storage_remove :: "call \<Rightarrow> string list \<Rightarrow> backend \<Rightarrow> backend" where
  "storage_remove c paths b =
     (case fault b c of
        Some msg \<Rightarrow> b
      | None \<Rightarrow> b\<lparr>bucket := filter (\<lambda>ob. so_key ob \<notin> set paths) (bucket b)\<rparr>)"

record js_file =
  file_name :: string
  file_size :: nat
  file_type :: string

text \<open>\<open>storage.upload(filePath, file, { upsert: false })\<close>.\<close>

definition storage_upload :: "string \<Rightarrow> js_file \<Rightarrow> backend \<Rightarrow> error + backend" where
  "storage_upload filePath f b =
     (case fault b StorageUpload of
        Some msg \<Rightarrow> Inl (SupabaseError msg)
      | None \<Rightarrow>
          if filePath \<in> set (map so_key (bucket b))
          then Inl (SupabaseError ''The resource already exists'')
          else Inr (b\<lparr>bucket := \<lparr>so_key = filePath, so_size = Some (file_size f)\<rparr> # bucket b\<rparr>))"

text \<open>\<open>.from('deleted_documents').select(...).eq('user_id', userId)\<close>.\<close>

definition select_deleted :: "call \<Rightarrow> string \<Rightarrow> backend \<Rightarrow> error + deleted_row list" where
  "select_deleted c userId b =
     (case fault b c of
        Some msg \<Rightarrow> Inl (SupabaseError msg)
      | None \<Rightarrow> Inr (filter (\<lambda>r. dr_user_id r = userId) (deleted_documents b)))"

text \<open>
  \<open>.single()\<close>: the query must yield exactly one row, otherwise it returns an error.
\<close>

definition single :: "'a list \<Rightarrow> error + 'a" where
  "single rows =
     (case rows of
        [r] \<Rightarrow> Inr r
      | _ \<Rightarrow> Inl (SupabaseError ''JSON object requested, multiple (or no) rows returned''))"

section \<open>Document lifecycle (supabaseClient)\<close>

record upload_result =
  ur_publicUrl :: string
  ur_path :: string

text \<open>\<open>uploadDocument\<close>; \<open>now\<close> is the value of \<open>Date.now()\<close>.\<close>

definition uploadDocument ::
  "nat \<Rightarrow> string \<Rightarrow> js_file \<Rightarrow> string \<Rightarrow> string \<Rightarrow> bool \<Rightarrow> backend \<Rightarrow> error + (upload_result \<times> backend)"
where
  "uploadDocument now userId f name category isPrivate b =
     (let fileExt = split_pop CHR ''.'' (file_name f);
          safeName = sanitize name;
          prefix = (if isPrivate then userId @ ''/private'' else userId);
          filePath = prefix @ ''/'' @ show_nat now @ ''_'' @ category @ ''_'' @ safeName
                     @ ''.'' @ fileExt
      in case storage_upload filePath f b of
           Inl e \<Rightarrow> Inl e
         | Inr b' \<Rightarrow>
             Inr (\<lparr>ur_publicUrl = getPublicUrl b' filePath, ur_path = filePath\<rparr>, b'))"

text \<open>
  \<open>moveToTrash\<close>. The database fills in \<open>id\<close> (\<open>gen_random_uuid()\<close>) and
  \<open>deleted_at\<close> (\<open>NOW()\<close>); they are the arguments \<open>uuid\<close> and \<open>now\<close>. The insert
  fails on the primary key and on \<open>UNIQUE(user_id, document_path)\<close>.
\<close>

definition moveToTrash :: "string \<Rightarrow> int \<Rightarrow> string \<Rightarrow> string \<Rightarrow> backend \<Rightarrow> error + backend" where
  "moveToTrash uuid now userId path b =
     (let filename = (if str_includes path ''/'' then split_pop CHR ''/'' path else path)
      in case fault b DeletedInsert of
           Some msg \<Rightarrow> Inl (SupabaseError msg)
         | None \<Rightarrow>
             if list_ex (\<lambda>r. dr_id r = uuid \<or> (dr_user_id r = userId \<and> dr_document_path r = path))
                  (deleted_documents b)
             then Inl (SupabaseError ''duplicate key value violates unique constraint'')
             else Inr (b\<lparr>deleted_documents :=
                          deleted_documents b
                          @ [\<lparr>dr_id = uuid, dr_user_id = userId, dr_document_path = path,
                              dr_document_name = filename, dr_deleted_at = now\<rparr>]\<rparr>))"

text \<open>\<open>restoreFromTrash\<close>: delete the marker rows with this id and user.\<close>

definition restoreFromTrash :: "string \<Rightarrow> string \<Rightarrow> backend \<Rightarrow> error + backend" where
  "restoreFromTrash userId documentId b =
     (case fault b DeletedDelete of
        Some msg \<Rightarrow> Inl (SupabaseError msg)
      | None \<Rightarrow>
          Inr (b\<lparr>deleted_documents :=
                   filter (\<lambda>r. \<not> (dr_id r = documentId \<and> dr_user_id r = userId))
                     (deleted_documents b)\<rparr>))"

record trash_item =
  ti_id :: string
  ti_name :: string
  ti_path :: string
  ti_publicUrl :: string
  ti_size :: nat
  ti_deletedAt :: int

text \<open>The body of the loop of \<open>listUserTrash\<close>: one trash item per marker row.\<close>

definition trashItem :: "string \<Rightarrow> backend \<Rightarrow> deleted_row \<Rightarrow> trash_item" where
  "trashItem userId b deletedDoc =
     (let parts = split CHR ''_'' (dr_document_name deletedDoc);
          displayName =
            (if length parts \<ge> 3
             then underscores_to_spaces (strip_last_ext (join ''_'' (drop 2 parts)))
             else dr_document_name deletedDoc)
      in \<lparr>ti_id = dr_id deletedDoc, ti_name = displayName,
          ti_path = dr_document_path deletedDoc,
          ti_publicUrl = getPublicUrl b (userId @ ''/'' @ dr_document_name deletedDoc),
          ti_size = 0, ti_deletedAt = dr_deleted_at deletedDoc\<rparr>)"

text \<open>\<open>listUserTrash\<close>: the user's markers, newest deletion first.\<close>

definition listUserTrash :: "string \<Rightarrow> backend \<Rightarrow> error + trash_item list" where
  "listUserTrash userId b =
     (case select_deleted DeletedSelectTrash userId b of
        Inl e \<Rightarrow> Inl e
      | Inr deletedDocs \<Rightarrow>
          Inr (map (trashItem userId b) (sort_key (\<lambda>r. - dr_deleted_at r) deletedDocs)))"

text \<open>
  \<open>deletePermanent\<close>: fetch the marker with \<open>.single()\<close>, delete it, then try to
  remove \<open>userId/document_name\<close> from the bucket; a failure of the removal is ignored.
\<close>

definition deletePermanent :: "string \<Rightarrow> string \<Rightarrow> backend \<Rightarrow> error + backend" where
  "deletePermanent userId documentId b =
     (case (case fault b DeletedFetchSingle of
              Some msg \<Rightarrow> Inl (SupabaseError msg)
            | None \<Rightarrow>
                single (filter (\<lambda>r. dr_id r = documentId \<and> dr_user_id r = userId)
                          (deleted_documents b))) of
        Inl fetchError \<Rightarrow> Inl fetchError
      | Inr deletedDoc \<Rightarrow>
          (case fault b DeletedDeletePermanent of
             Some msg \<Rightarrow> Inl (SupabaseError msg)
           | None \<Rightarrow>
               (let b1 = b\<lparr>deleted_documents :=
                             filter (\<lambda>r. \<not> (dr_id r = documentId \<and> dr_user_id r = userId))
                               (deleted_documents b)\<rparr>;
                    filePath = userId @ ''/'' @ dr_document_name deletedDoc
                in Inr (storage_remove StorageAdminRemove [filePath] b1))))"

text \<open>The paths \<open>purgeOldTrash\<close> selects from the trash listing.\<close>

definition purgeCandidates :: "int \<Rightarrow> trash_item list \<Rightarrow> string list" where
  "purgeCandidates threshold trash =
     map ti_path (filter (\<lambda>t. ti_size t > 0 \<and> ti_deletedAt t < threshold) trash)"

text \<open>\<open>purgeOldTrash\<close>; \<open>now\<close> is \<open>Date.now()\<close>.\<close>

definition purgeOldTrash :: "int \<Rightarrow> string \<Rightarrow> int \<Rightarrow> backend \<Rightarrow> error + backend" where
  "purgeOldTrash now userId days b =
     (let threshold = now - days * 24 * 60 * 60 * 1000
      in case listUserTrash userId b of
           Inl e \<Rightarrow> Inl e
         | Inr trash \<Rightarrow>
             (let toDelete = purgeCandidates threshold trash
              in if toDelete \<noteq> [] then Inr (storage_remove StorageRemove toDelete b)
                 else Inr b))"

record listed_document =
  ld_name :: string
  ld_path :: string
  ld_publicUrl :: string
  ld_size :: nat
  ld_category :: string

text \<open>\<open>obj.metadata?.size || 0\<close>.\<close>

definition size_or_0 :: "file_object \<Rightarrow> nat" where
  "size_or_0 obj = (case fo_size obj of None \<Rightarrow> 0 | Some n \<Rightarrow> n)"

text \<open>The filter of \<open>listUserDocuments\<close>.\<close>

definition keepObject :: "string list \<Rightarrow> file_object \<times> bool \<Rightarrow> bool" where
  "keepObject deletedPaths obj =
     (let isDeleted = fo_name (fst obj) \<in> set deletedPaths
      in str_includes (fo_name (fst obj)) ''.''
         \<and> size_or_0 (fst obj) > 0
         \<and> \<not> str_includes (fo_name (fst obj)) ''_trash_''
         \<and> \<not> isDeleted)"

text \<open>
  Parsing \<open>timestamp_category_name.ext\<close>: the category and the display name that
  \<open>listUserDocuments\<close> reads from a file name, before the private override.
\<close>

definition parseFileName :: "string \<Rightarrow> string \<times> string" where
  "parseFileName name =
     (let parts = split CHR ''_'' name
      in if length parts \<ge> 3
         then (parts ! 1, underscores_to_spaces (strip_word_ext (join ''_'' (drop 2 parts))))
         else (''other'', name))"

text \<open>The map of \<open>listUserDocuments\<close>.\<close>

definition toDocument :: "string \<Rightarrow> backend \<Rightarrow> file_object \<times> bool \<Rightarrow> listed_document" where
  "toDocument userId b obj =
     (let fullPath = (if snd obj then userId @ ''/private/'' @ fo_name (fst obj)
                      else userId @ ''/'' @ fo_name (fst obj));
          parsed = parseFileName (fo_name (fst obj));
          category = (if snd obj then ''private'' else fst parsed)
      in \<lparr>ld_name = snd parsed, ld_path = fo_name (fst obj),
          ld_publicUrl = getPublicUrl b fullPath,
          ld_size = size_or_0 (fst obj), ld_category = category\<rparr>)"

text \<open>
  \<open>allData\<close>: the regular entries followed by the private ones, each tagged with
  \<open>isPrivate\<close>. A failure of the private listing is only logged and leaves no
  private entries.
\<close>

definition allData :: "string \<Rightarrow> file_object list \<Rightarrow> backend \<Rightarrow> (file_object \<times> bool) list" where
  "allData userId regularData b =
     (let privateData =
            (case storage_list StorageListPrivate (userId @ ''/private'') b of
               Inl privateError \<Rightarrow> [] | Inr d \<Rightarrow> d)
      in map (\<lambda>obj. (obj, False)) regularData @ map (\<lambda>obj. (obj, True)) privateData)"

text \<open>
  \<open>deletedPaths\<close>: the \<open>document_name\<close> of each marker of the user. A failure of
  the query is only logged and leaves the set empty.
\<close>

definition deletedPaths :: "string \<Rightarrow> backend \<Rightarrow> string list" where
  "deletedPaths userId b =
     (case select_deleted DeletedSelectNames userId b of
        Inl deletedError \<Rightarrow> []
      | Inr deletedDocs \<Rightarrow> map dr_document_name deletedDocs)"

text \<open>\<open>listUserDocuments\<close>. A failure of the first listing is thrown.\<close>

definition listUserDocuments :: "string \<Rightarrow> backend \<Rightarrow> error + listed_document list" where
  "listUserDocuments userId b =
     (case storage_list StorageListRegular userId b of
        Inl regularError \<Rightarrow> Inl regularError
      | Inr regularData \<Rightarrow>
          Inr (map (toDocument userId b)
                 (filter (keepObject (deletedPaths userId b)) (allData userId regularData b))))"

section \<open>The document page (Index)\<close>

text \<open>
  The \<open>Document\<close> of the user interface; \<open>type\<close>, \<open>uploadDate\<close>, the formatted
  \<open>size\<close> and \<open>file\<close> are presentation only and are left out.
\<close>

record document =
  doc_id :: string
  doc_name :: string
  doc_category :: string
  doc_url :: "string option"
  doc_path :: "string option"

record trash_document =
  td_id :: string
  td_name :: string
  td_category :: string
  td_size :: nat
  td_url :: string
  td_path :: string
  td_deletedAt :: int

record index_page =
  documents :: "document list"
  trashDocs :: "trash_document list"
  selectedCategory :: string

definition toUiDocument :: "listed_document \<Rightarrow> document" where
  "toUiDocument d =
     \<lparr>doc_id = ld_path d, doc_name = ld_name d, doc_category = ld_category d,
      doc_url = Some (ld_publicUrl d), doc_path = Some (ld_path d)\<rparr>"

definition toUiTrash :: "trash_item \<Rightarrow> trash_document" where
  "toUiTrash t =
     \<lparr>td_id = ''trash-'' @ ti_name t, td_name = ti_name t, td_category = ''trash'',
      td_size = ti_size t, td_url = ti_publicUrl t, td_path = ti_path t,
      td_deletedAt = ti_deletedAt t\<rparr>"

text \<open>
  \<open>loadDocuments\<close>: the documents are set when both listings of the \<open>try\<close> block
  succeed; the \<open>finally\<close> block lists the trash again, and its failure is thrown.
\<close>

definition loadDocuments :: "string \<Rightarrow> backend \<Rightarrow> index_page \<Rightarrow> error option \<times> index_page" where
  "loadDocuments userId b page =
     (let page1 =
            (case listUserDocuments userId b of
               Inl e \<Rightarrow> page
             | Inr docs \<Rightarrow>
                 (case listUserTrash userId b of
                    Inl e \<Rightarrow> page
                  | Inr trash \<Rightarrow> page\<lparr>documents := map toUiDocument docs\<rparr>))
      in case listUserTrash userId b of
           Inl e \<Rightarrow> (Some e, page1)
         | Inr trashData \<Rightarrow> (None, page1\<lparr>trashDocs := map toUiTrash trashData\<rparr>))"

record share_settings =
  ss_isPublic :: bool
  ss_expiresIn :: int
  ss_requiresPassword :: bool
  ss_password :: "string option"
  ss_allowDownload :: bool

text \<open>The insert of \<open>handleShare\<close> into \<open>document_shares\<close>.\<close>

definition insert_share :: "share_row \<Rightarrow> backend \<Rightarrow> error + backend" where
  "insert_share row b =
     (case fault b SharesInsert of
        Some msg \<Rightarrow> Inl (SupabaseError msg)
      | None \<Rightarrow>
          if list_ex (\<lambda>r. sh_id r = sh_id row \<or> sh_share_token r = sh_share_token row)
               (document_shares b)
          then Inl (SupabaseError ''duplicate key value violates unique constraint'')
          else Inr (b\<lparr>document_shares := document_shares b @ [row]\<rparr>))"

text \<open>
  \<open>handleShare\<close>. \<open>user\<close> is the id of the signed-in user, if any; \<open>shareToken\<close>
  is the value of \<open>crypto.randomUUID()\<close>, \<open>rowId\<close> the id the database gives the row,
  \<open>now\<close> is \<open>Date.now()\<close>, and \<open>isProduction\<close> and \<open>origin\<close> are
  \<open>import.meta.env.PROD\<close> and \<open>window.location.origin\<close>. The result is the thrown
  error or the share URL, with the backend as the call leaves it.
\<close>

definition handleShare ::
  "string option \<Rightarrow> document \<Rightarrow> share_settings \<Rightarrow> string \<Rightarrow> string \<Rightarrow> int \<Rightarrow> bool \<Rightarrow> string
   \<Rightarrow> backend \<Rightarrow> (error + string) \<times> backend"
where
  "handleShare user doc shareSettings shareToken rowId now isProduction origin b =
     (case user of
        None \<Rightarrow> (Inl (Error ''User not authenticated''), b)
      | Some userId \<Rightarrow>
          if doc_category doc = ''private''
          then (Inl (Error ''Private documents cannot be shared''), b)
          else
            (let expiresAt =
                   (if ss_expiresIn shareSettings > 0
                    then Some (now + ss_expiresIn shareSettings * 60 * 60 * 1000)
                    else None);
                 passwordHash =
                   (case ss_password shareSettings of
                      None \<Rightarrow> None
                    | Some password \<Rightarrow>
                        if ss_requiresPassword shareSettings \<and> password \<noteq> []
                        then Some (btoa password) else None);
                 documentPath =
                   (case doc_path doc of
                      None \<Rightarrow> userId @ ''/'' @ doc_name doc
                    | Some p \<Rightarrow> if p \<noteq> [] then p else userId @ ''/'' @ doc_name doc)
             in case insert_share
                       \<lparr>sh_id = rowId, sh_user_id = userId, sh_document_path = documentPath,
                        sh_share_token = shareToken, sh_is_public = ss_isPublic shareSettings,
                        sh_expires_at = expiresAt, sh_password_hash = passwordHash,
                        sh_allow_download = ss_allowDownload shareSettings,
                        sh_access_count = 0\<rparr> b of
                  Inl e \<Rightarrow> (Inl e, b)
                | Inr b' \<Rightarrow>
                    (let baseUrl = (if isProduction then ''https://digi-locker.vercel.app''
                                    else origin)
                     in (Inr (baseUrl @ ''/shared/'' @ shareToken), b'))))"

text \<open>
  \<open>handleDelete\<close>; \<open>ident\<close> is its parameter \<open>id\<close>. \<open>confirm\<close> is the
  answer to \<open>window.confirm\<close>; \<open>uuid\<close> and \<open>now\<close> are the values the database
  fills in when a marker is inserted. Every error is caught and shown as a toast, so the
  result is the page and the backend.
\<close>

definition handleDelete ::
  "string option \<Rightarrow> bool \<Rightarrow> string \<Rightarrow> int \<Rightarrow> string \<Rightarrow> index_page \<Rightarrow> backend
   \<Rightarrow> index_page \<times> backend"
where
  "handleDelete user confirm uuid now ident page b =
     (case user of
        None \<Rightarrow> (page, b)
      | Some userId \<Rightarrow>
          (let doc = find (\<lambda>d. doc_id d = ident) (documents page);
               trashDoc = find (\<lambda>d. td_id d = ident) (trashDocs page);
               foundCategory =
                 (case doc of
                    Some d \<Rightarrow> Some (doc_category d)
                  | None \<Rightarrow> (case trashDoc of Some t \<Rightarrow> Some (td_category t) | None \<Rightarrow> None))
           in case foundCategory of
                None \<Rightarrow> (page, b)
              | Some category \<Rightarrow>
                  if category = ''private'' then
                    (if \<not> confirm then (page, b)
                     else (case deletePermanent userId ident b of
                             Inl e \<Rightarrow> (page, b)
                           | Inr b' \<Rightarrow>
                               (page\<lparr>documents :=
                                       filter (\<lambda>d. doc_id d \<noteq> ident) (documents page)\<rparr>, b')))
                  else if selectedCategory page = ''trash'' then
                    (if \<not> confirm then (page, b)
                     else (case trashDoc of
                             None \<Rightarrow> (page, b)
                           | Some t \<Rightarrow>
                               (case deletePermanent userId (td_id t) b of
                                  Inl e \<Rightarrow> (page, b)
                                | Inr b' \<Rightarrow> (snd (loadDocuments userId b' page), b'))))
                  else
                    (case doc of
                       None \<Rightarrow> (page, b)
                     | Some d \<Rightarrow>
                         (case doc_path d of
                            None \<Rightarrow> (page, b)
                          | Some path \<Rightarrow>
                              (case moveToTrash uuid now userId path b of
                                 Inl e \<Rightarrow> (page, b)
                               | Inr b' \<Rightarrow>
                                   (case loadDocuments userId b' page of
                                      (Some e, page') \<Rightarrow> (page', b')
                                    | (None, page') \<Rightarrow>
                                        (page'\<lparr>documents :=
                                                 filter (\<lambda>d. doc_id d \<noteq> ident)
                                                   (documents page')\<rparr>, b')))))))"

section \<open>The shared-document page\<close>

record shared_page =
  shareData :: "share_row option"
  documentUrl :: string
  error :: string
  passwordRequired :: bool
  loading :: bool

text \<open>The state of the page when it is first rendered.\<close>

definition initial_page :: shared_page where
  "initial_page =
     \<lparr>shareData = None, documentUrl = [], error = [], passwordRequired = False,
      loading = True\<rparr>"

text \<open>
  \<open>storage.createSignedUrl(path, 3600)\<close>: a signed URL when an object has this key.
\<close>

definition createSignedUrl :: "string \<Rightarrow> backend \<Rightarrow> error + string" where
  "createSignedUrl path b =
     (case fault b StorageCreateSignedUrl of
        Some msg \<Rightarrow> Inl (SupabaseError msg)
      | None \<Rightarrow>
          if path \<in> set (map so_key (bucket b))
          then Inr (supabaseUrl b @ ''/storage/v1/object/sign/documents/'' @ path @ ''?token='')
          else Inl (SupabaseError ''Object not found''))"

text \<open>The loop over \<open>alternativePaths\<close>: the first path that can be signed.\<close>

fun firstSignedUrl :: "string list \<Rightarrow> backend \<Rightarrow> string option" where
  "firstSignedUrl [] b = None"
| "firstSignedUrl (altPath # rest) b =
     (case createSignedUrl altPath b of
        Inr signedUrl \<Rightarrow> Some signedUrl
      | Inl altError \<Rightarrow> firstSignedUrl rest b)"

text \<open>The update of \<open>access_count\<close>; its failure is ignored.\<close>

definition incrementAccessCount :: "share_row \<Rightarrow> backend \<Rightarrow> backend" where
  "incrementAccessCount shareInfo b =
     (case fault b SharesUpdate of
        Some msg \<Rightarrow> b
      | None \<Rightarrow>
          b\<lparr>document_shares :=
               map (\<lambda>r. if sh_id r = sh_id shareInfo
                        then r\<lparr>sh_access_count := sh_access_count shareInfo + 1\<rparr> else r)
                 (document_shares b)\<rparr>)"

text \<open>
  \<open>loadDocument\<close>. The listing made first is only logged. The stored path is signed,
  or else the first of the alternative paths that can be.
\<close>

definition loadDocument :: "share_row \<Rightarrow> backend \<Rightarrow> shared_page \<Rightarrow> shared_page \<times> backend" where
  "loadDocument shareInfo b page =
     (let signed =
            (case createSignedUrl (sh_document_path shareInfo) b of
               Inr signedUrl \<Rightarrow> Some signedUrl
             | Inl urlError \<Rightarrow>
                 firstSignedUrl
                   [sh_document_path shareInfo,
                    strip_leading_slashes (sh_document_path shareInfo),
                    sh_user_id shareInfo @ ''/'' @ split_pop CHR ''/'' (sh_document_path shareInfo)]
                   b)
      in case signed of
           None \<Rightarrow>
             (page\<lparr>error := ''Document file not found in storage. The file may have been moved or deleted.''\<rparr>,
              b)
         | Some url \<Rightarrow>
             (page\<lparr>documentUrl := url, shareData := Some shareInfo\<rparr>,
              incrementAccessCount shareInfo b))"

text \<open>
  The checks of \<open>loadSharedDocument\<close> on the share record it has fetched, in the order of
  the source: public, expiry, password, then the document.
\<close>

definition resolveShare ::
  "int \<Rightarrow> share_row option \<Rightarrow> backend \<Rightarrow> shared_page \<Rightarrow> shared_page \<times> backend"
where
  "resolveShare now shareInfoOpt b page =
     (case shareInfoOpt of
        None \<Rightarrow> (page\<lparr>error := ''Share link not found or has been removed.''\<rparr>, b)
      | Some shareInfo \<Rightarrow>
          if \<not> sh_is_public shareInfo
          then (page\<lparr>error := ''This document is not publicly accessible.''\<rparr>, b)
          else if (case sh_expires_at shareInfo of None \<Rightarrow> False | Some t \<Rightarrow> t < now)
          then (page\<lparr>error := ''This share link has expired.''\<rparr>, b)
          else if (case sh_password_hash shareInfo of None \<Rightarrow> False | Some h \<Rightarrow> h \<noteq> [])
          then (page\<lparr>passwordRequired := True, shareData := Some shareInfo\<rparr>, b)
          else loadDocument shareInfo b page)"

text \<open>\<open>.from('document_shares').select('*').eq('share_token', token)\<close>.\<close>

definition select_shares :: "call \<Rightarrow> string \<Rightarrow> backend \<Rightarrow> error + share_row list" where
  "select_shares c token b =
     (case fault b c of
        Some msg \<Rightarrow> Inl (SupabaseError msg)
      | None \<Rightarrow> Inr (filter (\<lambda>r. sh_share_token r = token) (document_shares b)))"

text \<open>
  The first part of \<open>loadSharedDocument\<close>: the record is fetched with
  \<open>.single()\<close> and, if that fails, without it. The outcome is the value of
  \<open>shareInfo\<close>, or that the second query found no record.
\<close>

datatype fetched = NoRecordsFound | ShareInfo "share_row option"

definition fetchShareInfo :: "string \<Rightarrow> backend \<Rightarrow> fetched" where
  "fetchShareInfo token b =
     (case (case select_shares SharesSelectSingle token b of
              Inl e \<Rightarrow> Inl e | Inr rows \<Rightarrow> single rows) of
        Inr shareData1 \<Rightarrow> ShareInfo (Some shareData1)
      | Inl error1 \<Rightarrow>
          (case select_shares SharesSelectAll token b of
             Inl error2 \<Rightarrow> ShareInfo None
           | Inr shareData2 \<Rightarrow>
               (case shareData2 of
                  r # rest \<Rightarrow> ShareInfo (Some r)
                | [] \<Rightarrow> NoRecordsFound)))"

text \<open>
  \<open>loadSharedDocument\<close>; \<open>now\<close> is the time of \<open>new Date()\<close> in milliseconds.
\<close>

definition loadSharedDocument ::
  "string \<Rightarrow> int \<Rightarrow> backend \<Rightarrow> shared_page \<Rightarrow> shared_page \<times> backend"
where
  "loadSharedDocument token now b page =
     (let page1 = page\<lparr>loading := True\<rparr>;
          res =
            (case fetchShareInfo token b of
               NoRecordsFound \<Rightarrow>
                 (page1\<lparr>error := ''Share link not found. Please check if the link is correct.''\<rparr>,
                  b)
             | ShareInfo shareInfo \<Rightarrow> resolveShare now shareInfo b page1)
      in ((fst res)\<lparr>loading := False\<rparr>, snd res))"

text \<open>\<open>verifyPassword\<close>, with the content of the password field as argument.\<close>

definition verifyPassword :: "string \<Rightarrow> backend \<Rightarrow> shared_page \<Rightarrow> shared_page \<times> backend" where
  "verifyPassword password b page =
     (case shareData page of
        None \<Rightarrow> (page, b)
      | Some sd \<Rightarrow>
          if password = [] then (page, b)
          else
            (let hashedInput = btoa password
             in if Some hashedInput = sh_password_hash sd
                then loadDocument sd b (page\<lparr>passwordRequired := False\<rparr>)
                else (page, b)))"

text \<open>\<open>Math.ceil(a / b)\<close> for integers \<open>a\<close> and positive \<open>b\<close>.\<close>

definition ceil_div :: "int \<Rightarrow> int \<Rightarrow> int" where
  "ceil_div a b = - ((- a) div b)"

text \<open>\<open>getExpirationText\<close>.\<close>

definition getExpirationText :: "int \<Rightarrow> shared_page \<Rightarrow> string" where
  "getExpirationText now page =
     (case shareData page of
        None \<Rightarrow> ''Never expires''
      | Some sd \<Rightarrow>
          (case sh_expires_at sd of
             None \<Rightarrow> ''Never expires''
           | Some expiry \<Rightarrow>
               (let diffMs = expiry - now;
                    diffHours = ceil_div diffMs (1000 * 60 * 60)
                in if diffHours < 1 then ''Expires soon''
                   else if diffHours < 24
                   then ''Expires in '' @ show_nat (nat diffHours) @ '' hours''
                   else ''Expires in '' @ show_nat (nat (ceil_div diffHours 24)) @ '' days'')))"

section \<open>Categorization (geminiCategorization)\<close>

record category_suggestion =
  cs_category :: string
  cs_confidence :: rat
  cs_reasoning :: string
  cs_subcategory :: "string option"

text \<open>The own keys of \<open>categoryMapping\<close>.\<close>

definition categoryMapping_keys :: "string list" where
  "categoryMapping_keys =
     [''education'', ''identity'', ''financial'', ''medical'', ''legal'', ''other'']"

text \<open>
  \<open>categoryMapping[key]\<close> is truthy for the own keys and for the properties every
  object literal inherits from \<open>Object.prototype\<close>.
\<close>

definition object_prototype_keys :: "string list" where
  "object_prototype_keys =
     [''constructor'', ''hasOwnProperty'', ''isPrototypeOf'', ''propertyIsEnumerable'',
      ''toLocaleString'', ''toString'', ''valueOf'', ''__proto__'', ''__defineGetter__'',
      ''__defineSetter__'', ''__lookupGetter__'', ''__lookupSetter__'']"

definition categoryMapping_truthy :: "string \<Rightarrow> bool" where
  "categoryMapping_truthy key =
     (key \<in> set categoryMapping_keys \<or> key \<in> set object_prototype_keys)"

text \<open>\<open>fallbackCategorization\<close>.\<close>

definition fallbackCategorization :: "string \<Rightarrow> category_suggestion" where
  "fallbackCategorization fileName =
     (let lowerFileName = toLowerCase fileName
      in if str_includes lowerFileName ''semester'' \<or> str_includes lowerFileName ''transcript''
            \<or> str_includes lowerFileName ''certificate'' \<or> str_includes lowerFileName ''degree''
            \<or> str_includes lowerFileName ''result'' \<or> str_includes lowerFileName ''marksheet''
         then \<lparr>cs_category = ''education'', cs_confidence = 7 / 10,
               cs_reasoning = ''Filename contains education-related keywords'',
               cs_subcategory = Some ''academic_transcripts''\<rparr>
         else if str_includes lowerFileName ''passport'' \<or> str_includes lowerFileName ''license''
            \<or> str_includes lowerFileName ''id'' \<or> str_includes lowerFileName ''aadhar''
            \<or> str_includes lowerFileName ''pan''
         then \<lparr>cs_category = ''identity'', cs_confidence = 7 / 10,
               cs_reasoning = ''Filename contains identity document keywords'',
               cs_subcategory = None\<rparr>
         else if str_includes lowerFileName ''bank'' \<or> str_includes lowerFileName ''statement''
            \<or> str_includes lowerFileName ''tax'' \<or> str_includes lowerFileName ''salary''
            \<or> str_includes lowerFileName ''invoice''
         then \<lparr>cs_category = ''financial'', cs_confidence = 7 / 10,
               cs_reasoning = ''Filename contains financial document keywords'',
               cs_subcategory = None\<rparr>
         else if str_includes lowerFileName ''medical'' \<or> str_includes lowerFileName ''prescription''
            \<or> str_includes lowerFileName ''report'' \<or> str_includes lowerFileName ''health''
         then \<lparr>cs_category = ''medical'', cs_confidence = 7 / 10,
               cs_reasoning = ''Filename contains medical document keywords'',
               cs_subcategory = None\<rparr>
         else if str_includes lowerFileName ''contract'' \<or> str_includes lowerFileName ''agreement''
            \<or> str_includes lowerFileName ''legal'' \<or> str_includes lowerFileName ''court''
         then \<lparr>cs_category = ''legal'', cs_confidence = 7 / 10,
               cs_reasoning = ''Filename contains legal document keywords'',
               cs_subcategory = None\<rparr>
         else \<lparr>cs_category = ''other'', cs_confidence = 5 / 10,
               cs_reasoning =
                 ''Could not determine category from filename, defaulting to 'other'' @ [CHR 0x27],
               cs_subcategory = None\<rparr>)"

text \<open>
  What the call to the external service comes to: the request is rejected, the response
  is not \<open>ok\<close>, it carries no text, the text holds no \<open>{...}\<close>, \<open>JSON.parse\<close>
  throws, or an object with a string \<open>category\<close> and a numeric \<open>confidence\<close> is parsed.
\<close>

datatype gemini_outcome =
    FetchRejected | ResponseNotOk nat | NoText | NoJsonMatch | JsonSyntaxError
  | Parsed category_suggestion

text \<open>
  \<open>categorizeDocument\<close>; \<open>apiKeyPresent\<close> says whether \<open>GEMINI_API_KEY\<close> is
  truthy. The optional file content only goes into the prompt.
\<close>

definition categorizeDocument :: "bool \<Rightarrow> string \<Rightarrow> gemini_outcome \<Rightarrow> category_suggestion" where
  "categorizeDocument apiKeyPresent fileName outcome =
     (if \<not> apiKeyPresent then fallbackCategorization fileName
      else (case outcome of
              Parsed suggestion \<Rightarrow>
                if \<not> categoryMapping_truthy (cs_category suggestion)
                then suggestion\<lparr>cs_category := ''other'',
                       cs_confidence := max (3 / 10) (cs_confidence suggestion - 2 / 10),
                       cs_reasoning := cs_reasoning suggestion @ '' (Fallback to 'other' category)''\<rparr>
                else suggestion
            | _ \<Rightarrow> fallbackCategorization fileName))"

section \<open>Example data\<close>

text \<open>A backend with an empty bucket and empty tables, on which every call succeeds.\<close>

definition backend0 :: backend where
  "backend0 =
     \<lparr>bucket = [], deleted_documents = [], document_shares = [],
      fault = (\<lambda>c. None), supabaseUrl = ''https://project.supabase.co''\<rparr>"

definition resume_file :: js_file where
  "resume_file =
     \<lparr>file_name = ''Resume_2024.pdf'', file_size = 1000, file_type = ''application/pdf''\<rparr>"

definition dash_file :: js_file where
  "dash_file =
     \<lparr>file_name = ''Resume-2024.pdf'', file_size = 1000, file_type = ''application/pdf''\<rparr>"

text \<open>The backend after the upload of the example file at time \<open>1700000000000\<close>.\<close>

definition backend_resume :: backend where
  "backend_resume =
     backend0\<lparr>bucket :=
       [\<lparr>so_key = ''u1/1700000000000_education_Resume_2024.pdf'', so_size = Some 1000\<rparr>]\<rparr>"

text \<open>A stored report of user \<open>u1\<close> and a public share of it without expiry or password.\<close>

definition report_object :: stored_object where
  "report_object = \<lparr>so_key = ''u1/1700000000000_financial_report.pdf'', so_size = Some 2048\<rparr>"

definition share_base :: share_row where
  "share_base =
     \<lparr>sh_id = ''s1'', sh_user_id = ''u1'',
      sh_document_path = ''1700000000000_financial_report.pdf'', sh_share_token = ''tok'',
      sh_is_public = True, sh_expires_at = None, sh_password_hash = None,
      sh_allow_download = True, sh_access_count = 0\<rparr>"

definition backend_share :: "share_row \<Rightarrow> backend" where
  "backend_share r = backend0\<lparr>bucket := [report_object], document_shares := [r]\<rparr>"

text \<open>The same share, expired at time \<open>1000\<close> and protected by the password \<open>secret\<close>.\<close>

definition share_expired :: share_row where
  "share_expired = share_base\<lparr>sh_expires_at := Some 1000, sh_password_hash := Some ''c2VjcmV0''\<rparr>"

text \<open>An expired share that is not public.\<close>

definition share_expired_private :: share_row where
  "share_expired_private = share_base\<lparr>sh_is_public := False, sh_expires_at := Some 1000\<rparr>"

text \<open>A share protected by the password \<open>secret\<close>, and the page locked on it.\<close>

definition share_secret :: share_row where
  "share_secret = share_base\<lparr>sh_password_hash := Some ''c2VjcmV0''\<rparr>"

definition locked_page :: shared_page where
  "locked_page =
     initial_page\<lparr>passwordRequired := True, shareData := Some share_secret, loading := False\<rparr>"

text \<open>The report as the document page shows it, and settings for a share without expiry.\<close>

definition report_document :: document where
  "report_document =
     \<lparr>doc_id = ''1700000000000_financial_report.pdf'', doc_name = ''report'',
      doc_category = ''financial'',
      doc_url = Some ''https://project.supabase.co/storage/v1/object/public/documents/u1/1700000000000_financial_report.pdf'',
      doc_path = Some ''1700000000000_financial_report.pdf''\<rparr>"

definition share_forever :: share_settings where
  "share_forever =
     \<lparr>ss_isPublic = True, ss_expiresIn = 0, ss_requiresPassword = False,
      ss_password = None, ss_allowDownload = True\<rparr>"

text \<open>Settings for a public share without expiry, protected by the password \<open>secret\<close>.\<close>

definition share_protected :: share_settings where
  "share_protected =
     \<lparr>ss_isPublic = True, ss_expiresIn = 0, ss_requiresPassword = True,
      ss_password = Some ''secret'', ss_allowDownload = True\<rparr>"

definition backend_report :: backend where
  "backend_report = backend0\<lparr>bucket := [report_object]\<rparr>"

text \<open>
  A private document of user \<open>u1\<close> whose file name carries the category token
  \<open>education\<close>, a locker holding it next to the report, and the two entries as
  listed.
\<close>

definition private_object :: stored_object where
  "private_object =
     \<lparr>so_key = ''u1/private/1700000000001_education_Passport.pdf'', so_size = Some 4096\<rparr>"

definition backend_locker :: backend where
  "backend_locker = backend0\<lparr>bucket := [private_object, report_object]\<rparr>"

definition report_listed :: listed_document where
  "report_listed =
     \<lparr>ld_name = ''report'', ld_path = ''1700000000000_financial_report.pdf'',
      ld_publicUrl = ''https://project.supabase.co/storage/v1/object/public/documents/u1/1700000000000_financial_report.pdf'',
      ld_size = 2048, ld_category = ''financial''\<rparr>"

definition passport_listed :: listed_document where
  "passport_listed =
     \<lparr>ld_name = ''Passport'', ld_path = ''1700000000001_education_Passport.pdf'',
      ld_publicUrl = ''https://project.supabase.co/storage/v1/object/public/documents/u1/private/1700000000001_education_Passport.pdf'',
      ld_size = 4096, ld_category = ''private''\<rparr>"

text \<open>
  The uploaded example file moved to the trash: its marker, the backend holding the
  marker, the same backend when the marker query of the listing fails, and the entries
  as listed.
\<close>

definition marker_resume :: deleted_row where
  "marker_resume =
     \<lparr>dr_id = ''m1'', dr_user_id = ''u1'',
      dr_document_path = ''1700000000000_education_Resume_2024.pdf'',
      dr_document_name = ''1700000000000_education_Resume_2024.pdf'',
      dr_deleted_at = 1700000100000\<rparr>"

definition backend_trashed :: backend where
  "backend_trashed = backend_resume\<lparr>deleted_documents := [marker_resume]\<rparr>"

definition backend_trashed_fault :: backend where
  "backend_trashed_fault =
     backend_trashed\<lparr>fault := (\<lambda>c. if c = DeletedSelectNames then Some ''Failed to fetch'' else None)\<rparr>"

definition resume_listed :: listed_document where
  "resume_listed =
     \<lparr>ld_name = ''Resume 2024'', ld_path = ''1700000000000_education_Resume_2024.pdf'',
      ld_publicUrl = ''https://project.supabase.co/storage/v1/object/public/documents/u1/1700000000000_education_Resume_2024.pdf'',
      ld_size = 1000, ld_category = ''education''\<rparr>"

definition resume_trash_item :: trash_item where
  "resume_trash_item =
     \<lparr>ti_id = ''m1'', ti_name = ''Resume 2024'',
      ti_path = ''1700000000000_education_Resume_2024.pdf'',
      ti_publicUrl = ''https://project.supabase.co/storage/v1/object/public/documents/u1/1700000000000_education_Resume_2024.pdf'',
      ti_size = 0, ti_deletedAt = 1700000100000\<rparr>"

text \<open>The document page before and after loading the locker.\<close>

definition page_empty :: index_page where
  "page_empty = \<lparr>documents = [], trashDocs = [], selectedCategory = ''all''\<rparr>"

definition page_locker :: index_page where
  "page_locker =
     \<lparr>documents = [toUiDocument report_listed, toUiDocument passport_listed],
      trashDocs = [], selectedCategory = ''all''\<rparr>"

text \<open>A parsed suggestion whose confidence is given as a percentage.\<close>

definition percent_suggestion :: category_suggestion where
  "percent_suggestion =
     \<lparr>cs_category = ''education'', cs_confidence = 95,
      cs_reasoning = ''The file name mentions a semester result'', cs_subcategory = None\<rparr>"

section \<open>Facts about the string operations\<close>

lemmas eval_strings =
  split_pop_def sanitize_def is_alnum_def is_word_def show_nat.simps digit_char_def
  underscores_to_spaces_def strip_leading_slashes_def

lemmas eval_lifecycle =
  uploadDocument_def storage_upload_def getPublicUrl_def listUserDocuments_def
  allData_def deletedPaths_def storage_list_def in_folder_def select_deleted_def keepObject_def size_or_0_def
  toDocument_def parseFileName_def Let_def

lemma split_not_Nil: "split c s \<noteq> []"
  by (induction s) (auto split: list.splits)

lemma split_append_sep: "c \<notin> set a \<Longrightarrow> split c (a @ c # rest) = a # split c rest"
  by (induction a) (auto split: list.splits)

lemma split_no_sep: "c \<notin> set a \<Longrightarrow> split c a = [a]"
  by (induction a) (auto split: list.splits)

lemma join_split: "join [c] (split c s) = s"
proof (induction s)
  case Nil
  then show ?case by simp
next
  case (Cons x xs)
  show ?case
  proof (cases "x = c")
    case True
    with Cons show ?thesis
      by (cases "split c xs") (simp_all add: split_not_Nil)
  next
    case False
    obtain p ps where sp: "split c xs = p # ps"
      using split_not_Nil [of c xs] by (cases "split c xs") auto
    with Cons False show ?thesis
      by (cases ps) auto
  qed
qed

lemma strip_word_ext_append:
  "CHR ''.'' \<notin> set s \<Longrightarrow> ext \<noteq> [] \<Longrightarrow> list_all is_word ext \<Longrightarrow>
   strip_word_ext (s @ CHR ''.'' # ext) = s"
  by (induction s) auto

lemma dot_not_alnum: "\<not> is_alnum CHR ''.''"
  by (simp add: is_alnum_def)

lemma sanitize_no_dot: "CHR ''.'' \<notin> set (sanitize n)"
  by (auto simp: sanitize_def dot_not_alnum)

lemma underscore_not_alnum: "\<not> is_alnum CHR ''_''"
  by (simp add: is_alnum_def)

lemma spaces_sanitize:
  "underscores_to_spaces (sanitize n) = map (\<lambda>c. if is_alnum c then c else CHR '' '') n"
  by (auto simp: underscores_to_spaces_def sanitize_def underscore_not_alnum)

lemma digit_char_cases: "digit_char d \<in> set ''0123456789''"
proof -
  have "d mod 10 < length ''0123456789''" by simp
  then show ?thesis unfolding digit_char_def by (rule nth_mem)
qed

lemma show_nat_digits: "set (show_nat n) \<subseteq> set ''0123456789''"
proof (induction n rule: show_nat.induct)
  case (1 n)
  show ?case
  proof (cases "n < 10")
    case True
    then show ?thesis using digit_char_cases [of n] by (subst show_nat.simps) simp
  next
    case False
    then show ?thesis using 1 digit_char_cases [of "n mod 10"]
      by (subst show_nat.simps) simp
  qed
qed

lemma show_nat_no_underscore: "CHR ''_'' \<notin> set (show_nat n)"
  using show_nat_digits [of n] by auto

lemma parseFileName_roundtrip:
  assumes "CHR ''_'' \<notin> set category" "ext \<noteq> []" "list_all is_word ext"
  shows "parseFileName (show_nat now @ ''_'' @ category @ ''_'' @ sanitize name @ ''.'' @ ext)
         = (category, map (\<lambda>c. if is_alnum c then c else CHR '' '') name)"
proof -
  let ?rest = "sanitize name @ CHR ''.'' # ext"
  have sp: "split CHR ''_'' (show_nat now @ ''_'' @ category @ ''_'' @ sanitize name @ ''.'' @ ext)
            = show_nat now # category # split CHR ''_'' ?rest"
    using assms(1) show_nat_no_underscore [of now] by (simp add: split_append_sep)
  have len: "length (split CHR ''_'' ?rest) \<ge> 1"
    using split_not_Nil [of "CHR ''_''" ?rest] by (cases "split CHR ''_'' ?rest") auto
  have j: "join ''_'' (split CHR ''_'' ?rest) = ?rest" by (rule join_split)
  have st: "strip_word_ext ?rest = sanitize name"
    using assms(2,3) by (simp add: strip_word_ext_append sanitize_no_dot)
  show ?thesis
    unfolding parseFileName_def sp using len by (simp add: j st spaces_sanitize)
qed

lemma startsWith_append: "startsWith (a @ b) a"
  by (induction a) auto

lemma str_includes_char: "str_includes s [c] = (c \<in> set s)"
proof (induction s)
  case Nil
  then show ?case by simp
next
  case (Cons x xs)
  have "startsWith (x # xs) [c] = (x = c)" by simp
  with Cons show ?case by auto
qed

lemma in_folder_file:
  "name \<noteq> [] \<Longrightarrow> CHR ''/'' \<notin> set name \<Longrightarrow> in_folder folder (folder @ ''/'' @ name)"
  using startsWith_append [of "folder @ ''/''" name] by (simp add: in_folder_def)

lemma slash_not_word: "\<not> is_word CHR ''/''"
  by (simp add: is_word_def is_alnum_def)

lemma sanitize_no_slash: "CHR ''/'' \<notin> set (sanitize n)"
  by (auto simp: sanitize_def is_alnum_def)

lemma show_nat_no_slash: "CHR ''/'' \<notin> set (show_nat n)"
  using show_nat_digits [of n] by auto

lemma word_no_slash: "list_all is_word ext \<Longrightarrow> CHR ''/'' \<notin> set ext"
  using slash_not_word by (auto simp: list_all_iff)

section \<open>Facts about share resolution\<close>

lemmas eval_sharing =
  loadSharedDocument_def fetchShareInfo_def select_shares_def single_def resolveShare_def
  loadDocument_def createSignedUrl_def incrementAccessCount_def verifyPassword_def
  initial_page_def Let_def

lemmas eval_fixtures =
  backend0_def backend_share_def share_base_def report_object_def share_expired_def
  share_expired_private_def share_protected_def share_secret_def locked_page_def
  report_document_def share_forever_def backend_report_def private_object_def
  backend_locker_def report_listed_def passport_listed_def marker_resume_def
  backend_trashed_def backend_trashed_fault_def resume_listed_def resume_trash_item_def
  backend_resume_def page_empty_def page_locker_def percent_suggestion_def



lemma resolveShare_never_expired:
  assumes "sh_expires_at r = None"
  shows "error (fst (resolveShare now (Some r) b (initial_page\<lparr>loading := True\<rparr>)))
           \<noteq> ''This share link has expired.''"
  using assms
  by (simp add: resolveShare_def loadDocument_def initial_page_def Let_def split: option.splits)

lemma loadShared_error:
  "error (fst (loadSharedDocument token now b initial_page)) =
     (case fetchShareInfo token b of
        NoRecordsFound \<Rightarrow> ''Share link not found. Please check if the link is correct.''
      | ShareInfo shareInfo \<Rightarrow>
          error (fst (resolveShare now shareInfo b (initial_page\<lparr>loading := True\<rparr>))))"
  by (simp add: loadSharedDocument_def Let_def initial_page_def split: fetched.splits)

lemma fetch_unique_row:
  assumes "filter (\<lambda>x. sh_share_token x = token) (document_shares b) = [row]"
  shows "fetchShareInfo token b = ShareInfo (Some row) \<or> fetchShareInfo token b = ShareInfo None"
  using assms
  by (simp add: fetchShareInfo_def select_shares_def single_def split: option.splits)

lemma handleShare_success:
  assumes "handleShare (Some userId) doc settings shareToken rowId now isProduction origin b
             = (Inr url, b')"
  shows "\<exists>row. b' = b\<lparr>document_shares := document_shares b @ [row]\<rparr>
             \<and> sh_share_token row = shareToken
             \<and> sh_expires_at row =
                 (if ss_expiresIn settings > 0
                  then Some (now + ss_expiresIn settings * 60 * 60 * 1000) else None)
             \<and> filter (\<lambda>x. sh_share_token x = shareToken) (document_shares b) = []"
  using assms
  by (auto simp: handleShare_def insert_share_def Let_def list_ex_iff filter_empty_conv
           split: if_splits option.splits sum.splits)






section \<open>Facts about the listings\<close>

lemma startsWith_split: "startsWith key p \<Longrightarrow> p @ drop (length p) key = key"
  by (induction key p rule: startsWith.induct) auto

lemma in_folder_key:
  assumes "in_folder folder key"
  shows "folder @ ''/'' @ drop (length folder + 1) key = key"
proof -
  from assms have "startsWith key (folder @ ''/'')" by (simp add: in_folder_def)
  from startsWith_split [OF this] show ?thesis by simp
qed

lemma storage_list_entry:
  assumes "storage_list c folder b = Inr entries" "e \<in> set entries"
  shows "\<exists>ob\<in>set (bucket b). so_key ob = folder @ ''/'' @ fo_name e \<and> fo_size e = so_size ob
           \<and> fo_name e \<noteq> [] \<and> CHR ''/'' \<notin> set (fo_name e)"
proof -
  from assms obtain ob where ob: "ob \<in> set (bucket b)" "in_folder folder (so_key ob)"
      "e = \<lparr>fo_name = drop (length folder + 1) (so_key ob), fo_size = so_size ob\<rparr>"
    by (auto simp: storage_list_def split: option.splits dest!: in_set_takeD)
  have name: "fo_name e = drop (length folder + 1) (so_key ob)" using ob(3) by simp
  have "so_key ob = folder @ ''/'' @ fo_name e"
    unfolding name using in_folder_key [OF ob(2)] by simp
  moreover have "fo_name e \<noteq> []" "CHR ''/'' \<notin> set (fo_name e)"
    unfolding name using ob(2) by (simp_all add: in_folder_def)
  moreover have "fo_size e = so_size ob" using ob(3) by simp
  ultimately show ?thesis using ob(1) by blast
qed

lemma allData_entry:
  assumes "storage_list StorageListRegular userId b = Inr regularData"
    and "(obj, isPrivate) \<in> set (allData userId regularData b)"
  shows "\<exists>ob\<in>set (bucket b).
           so_key ob = (if isPrivate then userId @ ''/private/'' @ fo_name obj
                        else userId @ ''/'' @ fo_name obj)
           \<and> fo_name obj \<noteq> [] \<and> CHR ''/'' \<notin> set (fo_name obj)"
proof (cases isPrivate)
  case False
  with assms(2) have "obj \<in> set regularData" by (auto simp: allData_def Let_def)
  from storage_list_entry [OF assms(1) this] False show ?thesis by auto
next
  case True
  show ?thesis
  proof (cases "storage_list StorageListPrivate (userId @ ''/private'') b")
    case (Inl e)
    with assms(2) True show ?thesis by (auto simp: allData_def Let_def)
  next
    case (Inr privateData)
    with assms(2) True have "obj \<in> set privateData" by (auto simp: allData_def Let_def)
    from storage_list_entry [OF Inr this] True show ?thesis by auto
  qed
qed

lemma listUserDocuments_entry:
  assumes "listUserDocuments userId b = Inr docs" "d \<in> set docs"
  shows "\<exists>regularData obj isPrivate.
           storage_list StorageListRegular userId b = Inr regularData
           \<and> (obj, isPrivate) \<in> set (allData userId regularData b)
           \<and> keepObject (deletedPaths userId b) (obj, isPrivate)
           \<and> d = toDocument userId b (obj, isPrivate)"
proof (cases "storage_list StorageListRegular userId b")
  case (Inl e)
  with assms(1) show ?thesis by (simp add: listUserDocuments_def)
next
  case (Inr regularData)
  with assms have "d \<in> toDocument userId b `
      set (filter (keepObject (deletedPaths userId b)) (allData userId regularData b))"
    by (auto simp: listUserDocuments_def)
  then obtain x where "x \<in> set (allData userId regularData b)"
      "keepObject (deletedPaths userId b) x" "d = toDocument userId b x"
    by auto
  with Inr show ?thesis by (cases x) auto
qed

lemma split_pop_no_sep: "c \<notin> set s \<Longrightarrow> split_pop c s = s"
  by (simp add: split_pop_def split_no_sep)

lemma list_locker:
  "listUserDocuments ''u1'' backend_locker = Inr [report_listed, passport_listed]"
  by (simp add: eval_lifecycle eval_fixtures underscores_to_spaces_def is_word_def is_alnum_def)

lemma private_url_differs:
  "getPublicUrl b (userId @ ''/'' @ name) \<noteq> getPublicUrl b (userId @ ''/private/'' @ name)"
proof
  assume "getPublicUrl b (userId @ ''/'' @ name) = getPublicUrl b (userId @ ''/private/'' @ name)"
  then have "length (getPublicUrl b (userId @ ''/'' @ name))
           = length (getPublicUrl b (userId @ ''/private/'' @ name))"
    by simp
  then show False by (simp add: getPublicUrl_def)
qed

lemma handleShare_private:
  assumes "doc_category doc = ''private''"
  shows "handleShare user doc settings shareToken rowId now isProduction origin b =
           (Inl (case user of None \<Rightarrow> Error ''User not authenticated''
                 | Some u \<Rightarrow> Error ''Private documents cannot be shared''), b)"
  using assms by (simp add: handleShare_def split: option.splits)

lemma deletedPaths_ok:
  "fault b DeletedSelectNames = None \<Longrightarrow>
   deletedPaths userId b
     = map dr_document_name (filter (\<lambda>m. dr_user_id m = userId) (deleted_documents b))"
  by (simp add: deletedPaths_def select_deleted_def)

lemma listed_not_deleted:
  assumes "listUserDocuments userId b = Inr docs" "d \<in> set docs"
  shows "ld_path d \<notin> set (deletedPaths userId b)"
proof -
  from listUserDocuments_entry [OF assms] obtain obj isPrivate where
      k: "keepObject (deletedPaths userId b) (obj, isPrivate)"
      and d: "d = toDocument userId b (obj, isPrivate)"
    by blast
  from k have "fo_name obj \<notin> set (deletedPaths userId b)" by (simp add: keepObject_def Let_def)
  then show ?thesis unfolding d by (simp add: toDocument_def Let_def)
qed

lemma listUserTrash_items:
  assumes "listUserTrash userId b = Inr trash"
  shows "trash = map (trashItem userId b)
                   (sort_key (\<lambda>r. - dr_deleted_at r)
                      (filter (\<lambda>m. dr_user_id m = userId) (deleted_documents b)))"
  using assms by (auto simp: listUserTrash_def select_deleted_def split: option.splits)

lemma trashItem_fields:
  "ti_id (trashItem userId b m) = dr_id m" "ti_path (trashItem userId b m) = dr_document_path m"
  "ti_size (trashItem userId b m) = 0" "ti_deletedAt (trashItem userId b m) = dr_deleted_at m"
  by (simp_all add: trashItem_def Let_def)

lemma trash_count:
  assumes "listUserTrash userId b = Inr trash"
  shows "length (filter (\<lambda>t. ti_id t = i) trash)
       = length (filter (\<lambda>x. dr_id x = i \<and> dr_user_id x = userId) (deleted_documents b))"
proof -
  let ?rows = "filter (\<lambda>m. dr_user_id m = userId) (deleted_documents b)"
  have "filter (\<lambda>t. ti_id t = i) trash
      = map (trashItem userId b) (filter (\<lambda>x. dr_id x = i) (sort_key (\<lambda>r. - dr_deleted_at r) ?rows))"
    unfolding listUserTrash_items [OF assms] by (simp add: filter_map o_def trashItem_fields)
  also have "filter (\<lambda>x. dr_id x = i) (sort_key (\<lambda>r. - dr_deleted_at r) ?rows)
      = sort_key (\<lambda>r. - dr_deleted_at r) (filter (\<lambda>x. dr_id x = i) ?rows)"
    by (rule filter_sort)
  finally show ?thesis by (simp add: conj_commute)
qed

lemma moveToTrash_row:
  assumes "moveToTrash uuid now userId path b = Inr b1"
  shows "\<exists>m'. deleted_documents b1 = deleted_documents b @ [m'] \<and> dr_id m' = uuid
            \<and> dr_user_id m' = userId \<and> dr_document_path m' = path
            \<and> dr_document_name m' = split_pop CHR ''/'' path \<and> bucket b1 = bucket b"
proof -
  have name: "(if str_includes path ''/'' then split_pop CHR ''/'' path else path)
            = split_pop CHR ''/'' path"
    by (simp add: str_includes_char split_pop_no_sep)
  from assms show ?thesis
    unfolding moveToTrash_def Let_def name by (auto split: option.splits if_splits)
qed

lemma restore_lists_again:
  assumes ok: "fault b DeletedSelectNames = None"
    and res: "restoreFromTrash userId (dr_id m) b = Inr b'"
    and reg: "storage_list StorageListRegular userId b = Inr regularData"
    and mem: "(obj, isPrivate) \<in> set (allData userId regularData b)"
    and name: "fo_name obj = dr_document_name m"
    and keep: "keepObject [] (obj, isPrivate)"
    and only: "list_all (\<lambda>x. dr_user_id x = userId \<and> dr_document_name x = dr_document_name m
                            \<longrightarrow> dr_id x = dr_id m) (deleted_documents b)"
  shows "\<exists>docs'. listUserDocuments userId b' = Inr docs'
            \<and> toDocument userId b (obj, isPrivate) \<in> set docs'"
proof -
  from res have b': "b' = b\<lparr>deleted_documents :=
        filter (\<lambda>r. \<not> (dr_id r = dr_id m \<and> dr_user_id r = userId)) (deleted_documents b)\<rparr>"
    by (auto simp: restoreFromTrash_def split: option.splits)
  have sl: "\<And>c folder. storage_list c folder b' = storage_list c folder b"
    unfolding b' by (simp add: storage_list_def split: option.splits)
  have ad: "allData userId regularData b' = allData userId regularData b"
    by (simp add: allData_def sl)
  have td: "toDocument userId b' = toDocument userId b"
    unfolding b' by (rule ext) (simp add: toDocument_def getPublicUrl_def Let_def)
  have ok': "fault b' DeletedSelectNames = None" unfolding b' using ok by simp
  have gone: "dr_document_name m \<notin> set (deletedPaths userId b')"
    unfolding deletedPaths_ok [OF ok'] using only unfolding b'
    by (auto simp: list_all_iff)
  with keep name have "keepObject (deletedPaths userId b') (obj, isPrivate)"
    by (simp add: keepObject_def Let_def)
  with mem have "toDocument userId b (obj, isPrivate) \<in>
      set (map (toDocument userId b)
             (filter (keepObject (deletedPaths userId b')) (allData userId regularData b)))"
    by auto
  then show ?thesis
    using reg by (simp add: listUserDocuments_def sl ad td)
qed

lemma list_trashed: "listUserDocuments ''u1'' backend_trashed = Inr []"
  by (simp add: eval_lifecycle eval_fixtures)

lemma list_resume: "listUserDocuments ''u1'' backend_resume = Inr [resume_listed]"
  by (simp add: eval_lifecycle eval_fixtures underscores_to_spaces_def is_word_def is_alnum_def)

lemma trash_trashed: "listUserTrash ''u1'' backend_trashed = Inr [resume_trash_item]"
  by (simp add: listUserTrash_def select_deleted_def trashItem_def getPublicUrl_def Let_def
        eval_fixtures underscores_to_spaces_def)

lemma restore_trashed: "restoreFromTrash ''u1'' ''m1'' backend_trashed = Inr backend_resume"
  by (simp add: restoreFromTrash_def eval_fixtures)

lemma trash_sizes:
  assumes "listUserTrash userId b = Inr trash"
  shows "list_all (\<lambda>t. ti_size t = 0) trash"
  unfolding listUserTrash_items [OF assms] by (simp add: list_all_iff trashItem_fields)

lemma purgeCandidates_zero:
  "list_all (\<lambda>t. ti_size t = 0) trash \<Longrightarrow> purgeCandidates threshold trash = []"
  by (induction trash) (auto simp: purgeCandidates_def)

lemma fallback_range:
  "cs_category (fallbackCategorization fileName) \<in> set categoryMapping_keys
   \<and> 0 \<le> cs_confidence (fallbackCategorization fileName)
   \<and> cs_confidence (fallbackCategorization fileName) \<le> 1"
  by (simp add: fallbackCategorization_def categoryMapping_keys_def Let_def)

section \<open>Path encoding\<close>

text \<open>
  C5, as amended. Uploading a non-private document with display name \<open>name\<close> and
  category \<open>category\<close> stores it under \<open>userId/timestamp_category_sanitized.ext\<close>.
  When the category holds no underscore and no slash and the extension of the file is a
  non-empty run of word characters, that file name parses back to the category and to
  the display name with every character other than an ASCII letter or digit rendered as
  a space; and when moreover the file is not empty, the file name does not contain
  \<open>_trash_\<close>, no deletion marker of the user carries the file name and the listing
  of the user's folder succeeds, \<open>listUserDocuments\<close> returns that entry. A file name
  that splits into fewer than three segments at \<open>_\<close> parses to category \<open>other\<close>.
\<close>

theorem upload_list_roundtrip:
  assumes up: "uploadDocument now userId f name category False b = Inr (r, b')"
    and fname: "fname = show_nat now @ ''_'' @ category @ ''_'' @ sanitize name @ ''.''
                        @ split_pop CHR ''.'' (file_name f)"
    and cat: "CHR ''_'' \<notin> set category" "CHR ''/'' \<notin> set category"
    and ext: "split_pop CHR ''.'' (file_name f) \<noteq> []"
             "list_all is_word (split_pop CHR ''.'' (file_name f))"
    and size: "file_size f > 0"
    and notrash: "\<not> str_includes fname ''_trash_''"
    and nomarker: "fname \<notin> set (map dr_document_name
                      (filter (\<lambda>m. dr_user_id m = userId) (deleted_documents b)))"
    and nofault: "fault b StorageListRegular = None"
  shows "ur_path r = userId @ ''/'' @ fname
       \<and> parseFileName fname = (category, map (\<lambda>c. if is_alnum c then c else CHR '' '') name)
       \<and> (\<exists>docs. listUserDocuments userId b' = Inr docs
             \<and> \<lparr>ld_name = map (\<lambda>c. if is_alnum c then c else CHR '' '') name,
                 ld_path = fname, ld_publicUrl = ur_publicUrl r,
                 ld_size = file_size f, ld_category = category\<rparr> \<in> set docs)
       \<and> (length (split CHR ''_'' other) < 3 \<longrightarrow> fst (parseFileName other) = ''other'')"
proof -
  let ?key = "userId @ ''/'' @ fname"
  let ?shown = "map (\<lambda>c. if is_alnum c then c else CHR '' '') name"
  from up fname have b': "b' = b\<lparr>bucket := \<lparr>so_key = ?key, so_size = Some (file_size f)\<rparr> # bucket b\<rparr>"
    and r: "r = \<lparr>ur_publicUrl = getPublicUrl b' ?key, ur_path = ?key\<rparr>"
    by (auto simp: uploadDocument_def storage_upload_def Let_def split: option.splits if_splits)
  have path: "ur_path r = ?key" using r by simp
  have parse: "parseFileName fname = (category, ?shown)"
    unfolding fname using cat(1) ext by (rule parseFileName_roundtrip)
  have noslash: "CHR ''/'' \<notin> set fname"
    unfolding fname using cat(2) ext(2)
    by (simp add: show_nat_no_slash sanitize_no_slash word_no_slash)
  have nonempty: "fname \<noteq> []" unfolding fname by simp
  have dot: "str_includes fname ''.''"
    unfolding fname by (simp add: str_includes_char)
  let ?obj = "\<lparr>fo_name = fname, fo_size = Some (file_size f)\<rparr>"
  have dropkey: "drop (Suc (length userId)) ?key = fname" by simp
  have infold: "in_folder userId ?key" using nonempty noslash by (rule in_folder_file)
  obtain regularData where reg: "storage_list StorageListRegular userId b' = Inr regularData"
    and memb: "?obj \<in> set regularData"
    using nofault infold dropkey unfolding storage_list_def b' by simp
  have notdel: "fname \<notin> set (deletedPaths userId b')"
    using nomarker unfolding deletedPaths_def select_deleted_def b'
    by (auto split: option.splits)
  have keep: "keepObject (deletedPaths userId b') (?obj, False)"
    using dot size notrash notdel by (simp add: keepObject_def size_or_0_def)
  have conv: "toDocument userId b' (?obj, False) =
      \<lparr>ld_name = ?shown, ld_path = fname, ld_publicUrl = ur_publicUrl r,
       ld_size = file_size f, ld_category = category\<rparr>"
    using parse r by (simp add: toDocument_def size_or_0_def)
  have lst: "listUserDocuments userId b' =
      Inr (map (toDocument userId b')
            (filter (keepObject (deletedPaths userId b')) (allData userId regularData b')))"
    using reg by (simp add: listUserDocuments_def)
  have "(?obj, False) \<in> set (allData userId regularData b')"
    using memb by (simp add: allData_def Let_def)
  with keep have "toDocument userId b' (?obj, False) \<in>
        set (map (toDocument userId b')
              (filter (keepObject (deletedPaths userId b')) (allData userId regularData b')))"
    by auto
  with lst conv have listed: "\<exists>docs. listUserDocuments userId b' = Inr docs
             \<and> \<lparr>ld_name = ?shown, ld_path = fname, ld_publicUrl = ur_publicUrl r,
                 ld_size = file_size f, ld_category = category\<rparr> \<in> set docs"
    by simp
  have short: "length (split CHR ''_'' other) < 3 \<longrightarrow> fst (parseFileName other) = ''other''"
    by (simp add: parseFileName_def)
  from path parse listed short show ?thesis by blast
qed

theorem upload_list_roundtrip_witness:
  "parseFileName ''1700000000000_education_Resume_2024.pdf'' = (''education'', ''Resume 2024'')
   \<and> (\<exists>docs. listUserDocuments ''u1'' backend_resume = Inr docs
         \<and> \<lparr>ld_name = ''Resume 2024'', ld_path = ''1700000000000_education_Resume_2024.pdf'',
             ld_publicUrl = ''https://project.supabase.co/storage/v1/object/public/documents/u1/1700000000000_education_Resume_2024.pdf'',
             ld_size = 1000, ld_category = ''education''\<rparr> \<in> set docs)
   \<and> fst (parseFileName ''badname.pdf'') = ''other''"
proof -
  have up: "uploadDocument 1700000000000 ''u1'' resume_file ''Resume_2024'' ''education'' False backend0
   = Inr (\<lparr>ur_publicUrl = ''https://project.supabase.co/storage/v1/object/public/documents/u1/1700000000000_education_Resume_2024.pdf'',
           ur_path = ''u1/1700000000000_education_Resume_2024.pdf''\<rparr>, backend_resume)"
    by (simp add: eval_strings eval_lifecycle backend0_def backend_resume_def resume_file_def)
  have fname: "''1700000000000_education_Resume_2024.pdf'' =
      show_nat 1700000000000 @ ''_'' @ ''education'' @ ''_'' @ sanitize ''Resume_2024'' @ ''.''
        @ split_pop CHR ''.'' (file_name resume_file)"
    by (simp add: eval_strings resume_file_def)
  have c1: "CHR ''_'' \<notin> set ''education''" and c2: "CHR ''/'' \<notin> set ''education''"
    by simp_all
  have e1: "split_pop CHR ''.'' (file_name resume_file) \<noteq> []"
    and e2: "list_all is_word (split_pop CHR ''.'' (file_name resume_file))"
    by (simp_all add: eval_strings resume_file_def)
  have sz: "file_size resume_file > 0" by (simp add: resume_file_def)
  have nt: "\<not> str_includes ''1700000000000_education_Resume_2024.pdf'' ''_trash_''" by simp
  have nm: "''1700000000000_education_Resume_2024.pdf'' \<notin> set (map dr_document_name
                      (filter (\<lambda>m. dr_user_id m = ''u1'') (deleted_documents backend0)))"
    by (simp add: backend0_def)
  have nf: "fault backend0 StorageListRegular = None" by (simp add: backend0_def)
  have short: "length (split CHR ''_'' ''badname.pdf'') < 3" by simp
  from upload_list_roundtrip [OF up fname c1 c2 e1 e2 sz nt nm nf, of "''badname.pdf''"] short
  show ?thesis by (simp add: resume_file_def is_alnum_def)
qed

text \<open>
  C5 as stated fails: a display name with a hyphen does not come back with only its
  underscores turned into spaces. Uploading \<open>Resume-2024\<close> lists \<open>Resume 2024\<close>.
\<close>

theorem display_name_counterexample:
  "uploadDocument 1700000000000 ''u1'' dash_file ''Resume-2024'' ''education'' False backend0
     = Inr (\<lparr>ur_publicUrl = ''https://project.supabase.co/storage/v1/object/public/documents/u1/1700000000000_education_Resume_2024.pdf'',
             ur_path = ''u1/1700000000000_education_Resume_2024.pdf''\<rparr>, backend_resume)
   \<and> listUserDocuments ''u1'' backend_resume
     = Inr [\<lparr>ld_name = ''Resume 2024'', ld_path = ''1700000000000_education_Resume_2024.pdf'',
             ld_publicUrl = ''https://project.supabase.co/storage/v1/object/public/documents/u1/1700000000000_education_Resume_2024.pdf'',
             ld_size = 1000, ld_category = ''education''\<rparr>]
   \<and> underscores_to_spaces ''Resume-2024'' = ''Resume-2024''
   \<and> ''Resume 2024'' \<noteq> ''Resume-2024''"
  by (simp add: eval_strings eval_lifecycle backend0_def backend_resume_def dash_file_def)

section \<open>Share resolution\<close>

text \<open>
  C3, as amended. For every share record that \<open>loadSharedDocument\<close> fetches and whose
  \<open>expires_at\<close> is non-null and earlier than the current time, no signed document
  URL is generated, the backend is left untouched and the record is not handed to the
  page, so that \<open>verifyPassword\<close> with any password, also the right one, changes
  nothing. When the record is public the page ends in the expired error state; when it
  is not public the page reports that the document is not publicly accessible, that
  check being made first. The expiry check is made before the password check.
\<close>

theorem expired_share_not_resolved:
  assumes fetched: "fetchShareInfo token b = ShareInfo (Some r)"
    and expiry: "sh_expires_at r = Some t" "t < now"
  shows "documentUrl (fst (loadSharedDocument token now b initial_page)) = []
       \<and> shareData (fst (loadSharedDocument token now b initial_page)) = None
       \<and> snd (loadSharedDocument token now b initial_page) = b
       \<and> verifyPassword password b2 (fst (loadSharedDocument token now b initial_page))
           = (fst (loadSharedDocument token now b initial_page), b2)
       \<and> (sh_is_public r \<longrightarrow>
            error (fst (loadSharedDocument token now b initial_page))
              = ''This share link has expired.'')
       \<and> (\<not> sh_is_public r \<longrightarrow>
            error (fst (loadSharedDocument token now b initial_page))
              = ''This document is not publicly accessible.'')"
proof -
  have res: "loadSharedDocument token now b initial_page =
      (initial_page\<lparr>error := (if sh_is_public r then ''This share link has expired.''
                                 else ''This document is not publicly accessible.''),
                      loading := False\<rparr>, b)"
    using fetched expiry
    by (simp add: loadSharedDocument_def resolveShare_def initial_page_def Let_def)
  show ?thesis
    unfolding res by (simp add: verifyPassword_def initial_page_def)
qed

theorem expired_share_not_resolved_witness:
  "error (fst (loadSharedDocument ''tok'' 2000 (backend_share share_expired) initial_page))
     = ''This share link has expired.''
   \<and> documentUrl (fst (loadSharedDocument ''tok'' 2000 (backend_share share_expired) initial_page))
     = []
   \<and> verifyPassword ''secret'' (backend_share share_expired)
        (fst (loadSharedDocument ''tok'' 2000 (backend_share share_expired) initial_page))
     = (fst (loadSharedDocument ''tok'' 2000 (backend_share share_expired) initial_page),
        backend_share share_expired)"
proof -
  have f: "fetchShareInfo ''tok'' (backend_share share_expired) = ShareInfo (Some share_expired)"
    by (simp add: fetchShareInfo_def select_shares_def single_def eval_fixtures)
  have e: "sh_expires_at share_expired = Some 1000" by (simp add: share_expired_def)
  have lt: "(1000::int) < 2000" by simp
  have p: "sh_is_public share_expired" by (simp add: share_expired_def share_base_def)
  from expired_share_not_resolved [OF f e lt, of "''secret''" "backend_share share_expired"] p
  show ?thesis by blast
qed

text \<open>
  C3 as stated fails for a record that is expired and not public: the page reports that
  the document is not publicly accessible, not that the link has expired.
\<close>

theorem expired_private_share_counterexample:
  "sh_expires_at share_expired_private = Some 1000
   \<and> (1000::int) < 2000
   \<and> error (fst (loadSharedDocument ''tok'' 2000 (backend_share share_expired_private)
                    initial_page))
     = ''This document is not publicly accessible.''
   \<and> ''This document is not publicly accessible.'' \<noteq> ''This share link has expired.''"
  by (simp add: eval_sharing eval_fixtures)



text \<open>
  C6. A share created by \<open>handleShare\<close> with \<open>expiresIn = 0\<close> is stored with
  \<open>expires_at = null\<close>, and resolving its token never reports it as expired,
  whichever calls fail. Any share record with \<open>expires_at\<close> null that
  \<open>loadSharedDocument\<close> fetches is not reported as expired, and
  \<open>getExpirationText\<close> shows it as never expiring.
\<close>

theorem never_expiring_share:
  "(handleShare (Some userId) doc settings shareToken rowId now isProduction origin b
        = (Inr url, b') \<and> ss_expiresIn settings = 0
      \<longrightarrow> (\<exists>row. document_shares b' = document_shares b @ [row]
                 \<and> sh_share_token row = shareToken \<and> sh_expires_at row = None)
          \<and> error (fst (loadSharedDocument shareToken now2 (b'\<lparr>fault := f\<rparr>) initial_page))
              \<noteq> ''This share link has expired.'')
   \<and> (fetchShareInfo token b2 = ShareInfo (Some r) \<and> sh_expires_at r = None
      \<longrightarrow> error (fst (loadSharedDocument token now2 b2 initial_page))
            \<noteq> ''This share link has expired.'')
   \<and> (shareData page = Some r \<and> sh_expires_at r = None
      \<longrightarrow> getExpirationText now3 page = ''Never expires'')"
proof (intro conjI impI)
  assume a: "handleShare (Some userId) doc settings shareToken rowId now isProduction origin b
        = (Inr url, b') \<and> ss_expiresIn settings = 0"
  then obtain row where row: "b' = b\<lparr>document_shares := document_shares b @ [row]\<rparr>"
      "sh_share_token row = shareToken" "sh_expires_at row = None"
      "filter (\<lambda>x. sh_share_token x = shareToken) (document_shares b) = []"
    using handleShare_success [of userId doc settings shareToken rowId now isProduction origin b url b']
    by auto
  from row show "\<exists>row. document_shares b' = document_shares b @ [row]
                 \<and> sh_share_token row = shareToken \<and> sh_expires_at row = None"
    by auto
  have "filter (\<lambda>x. sh_share_token x = shareToken) (document_shares (b'\<lparr>fault := f\<rparr>)) = [row]"
    using row by simp
  from fetch_unique_row [OF this]
  show "error (fst (loadSharedDocument shareToken now2 (b'\<lparr>fault := f\<rparr>) initial_page))
              \<noteq> ''This share link has expired.''"
  proof
    assume "fetchShareInfo shareToken (b'\<lparr>fault := f\<rparr>) = ShareInfo (Some row)"
    then show ?thesis
      using resolveShare_never_expired [OF row(3)] by (simp add: loadShared_error)
  next
    assume "fetchShareInfo shareToken (b'\<lparr>fault := f\<rparr>) = ShareInfo None"
    then show ?thesis
      by (simp add: loadShared_error resolveShare_def)
  qed
next
  assume "fetchShareInfo token b2 = ShareInfo (Some r) \<and> sh_expires_at r = None"
  then show "error (fst (loadSharedDocument token now2 b2 initial_page))
            \<noteq> ''This share link has expired.''"
    using resolveShare_never_expired [of r now2 b2] by (simp add: loadShared_error)
next
  assume "shareData page = Some r \<and> sh_expires_at r = None"
  then show "getExpirationText now3 page = ''Never expires''"
    by (simp add: getExpirationText_def)
qed

theorem never_expiring_share_witness:
  "handleShare (Some ''u1'') report_document share_forever ''tok'' ''s1'' 5000 True
       ''http://localhost:5173'' backend_report
     = (Inr ''https://digi-locker.vercel.app/shared/tok'', backend_share share_base)
   \<and> sh_expires_at share_base = None
   \<and> error (fst (loadSharedDocument ''tok'' 99999999 (backend_share share_base) initial_page))
       \<noteq> ''This share link has expired.''
   \<and> getExpirationText 99999999
        (fst (loadSharedDocument ''tok'' 99999999 (backend_share share_base) initial_page))
       = ''Never expires''"
proof -
  have hs: "handleShare (Some ''u1'') report_document share_forever ''tok'' ''s1'' 5000 True
       ''http://localhost:5173'' backend_report
     = (Inr ''https://digi-locker.vercel.app/shared/tok'', backend_share share_base)"
    by (simp add: handleShare_def insert_share_def Let_def eval_fixtures)
  have zero: "ss_expiresIn share_forever = 0" by (simp add: share_forever_def)
  have null: "sh_expires_at share_base = None" by (simp add: share_base_def)
  have f: "fetchShareInfo ''tok'' (backend_share share_base) = ShareInfo (Some share_base)"
    by (simp add: fetchShareInfo_def select_shares_def single_def eval_fixtures)
  have sd: "shareData (fst (loadSharedDocument ''tok'' 99999999 (backend_share share_base) initial_page))
              = Some share_base"
    by (simp add: eval_sharing eval_fixtures eval_strings)
  from never_expiring_share [where userId = "''u1''" and doc = report_document
      and settings = share_forever and shareToken = "''tok''" and rowId = "''s1''" and now = 5000
      and isProduction = True and origin = "''http://localhost:5173''" and b = backend_report
      and url = "''https://digi-locker.vercel.app/shared/tok''" and b' = "backend_share share_base"
      and token = "''tok''" and ?b2.0 = "backend_share share_base" and r = share_base
      and ?now2.0 = 99999999 and ?now3.0 = 99999999
      and page = "fst (loadSharedDocument ''tok'' 99999999 (backend_share share_base) initial_page)"
      and f = "\<lambda>c. None"]
    hs zero null f sd
  show ?thesis by simp
qed

section \<open>Listing, trash and private documents\<close>

text \<open>
  C10. Every entry returned by \<open>listUserDocuments\<close> has as its \<open>path\<close> the bare
  file name of a stored object: it contains no slash, the object itself is stored under
  \<open>userId/\<close> or \<open>userId/private/\<close> followed by that name, and only the public
  URL is built from the full key. The document page passes this bare name on as the
  document's id and path, so a share row or a deletion marker made from a listed
  document stores the bare name, whose last segment is the name itself: the alternative
  path \<open>user_id/filename\<close> of \<open>loadDocument\<close> is the key of the object.
\<close>

theorem listed_path_is_bare_filename:
  assumes "listUserDocuments userId b = Inr docs" "d \<in> set docs"
  shows "CHR ''/'' \<notin> set (ld_path d)
       \<and> ((\<exists>ob\<in>set (bucket b). so_key ob = userId @ ''/'' @ ld_path d
              \<and> ld_publicUrl d = getPublicUrl b (so_key ob))
          \<or> (\<exists>ob\<in>set (bucket b). so_key ob = userId @ ''/private/'' @ ld_path d
              \<and> ld_publicUrl d = getPublicUrl b (so_key ob) \<and> ld_category d = ''private''))
       \<and> doc_id (toUiDocument d) = ld_path d
       \<and> doc_path (toUiDocument d) = Some (ld_path d)
       \<and> split_pop CHR ''/'' (ld_path d) = ld_path d
       \<and> (handleShare (Some userId) (toUiDocument d) settings shareToken rowId now isProduction
             origin b = (Inr url, b')
           \<longrightarrow> sh_document_path (last (document_shares b')) = ld_path d)
       \<and> (moveToTrash uuid now2 userId (ld_path d) b = Inr b2
           \<longrightarrow> dr_document_path (last (deleted_documents b2)) = ld_path d)"
proof -
  from listUserDocuments_entry [OF assms] obtain regularData obj isPrivate where
      reg: "storage_list StorageListRegular userId b = Inr regularData"
      and mem: "(obj, isPrivate) \<in> set (allData userId regularData b)"
      and d: "d = toDocument userId b (obj, isPrivate)"
    by blast
  from allData_entry [OF reg mem] obtain ob where ob: "ob \<in> set (bucket b)"
      "so_key ob = (if isPrivate then userId @ ''/private/'' @ fo_name obj
                    else userId @ ''/'' @ fo_name obj)"
      "fo_name obj \<noteq> []" "CHR ''/'' \<notin> set (fo_name obj)"
    by blast
  have path: "ld_path d = fo_name obj" unfolding d by (simp add: toDocument_def Let_def)
  have noslash: "CHR ''/'' \<notin> set (ld_path d)" using ob(4) path by simp
  have nonempty: "ld_path d \<noteq> []" using ob(3) path by simp
  have loc: "(\<exists>ob\<in>set (bucket b). so_key ob = userId @ ''/'' @ ld_path d
              \<and> ld_publicUrl d = getPublicUrl b (so_key ob))
          \<or> (\<exists>ob\<in>set (bucket b). so_key ob = userId @ ''/private/'' @ ld_path d
              \<and> ld_publicUrl d = getPublicUrl b (so_key ob) \<and> ld_category d = ''private'')"
  proof (cases isPrivate)
    case True
    with ob(1,2) have "so_key ob = userId @ ''/private/'' @ ld_path d
        \<and> ld_publicUrl d = getPublicUrl b (so_key ob) \<and> ld_category d = ''private''"
      unfolding d by (simp add: toDocument_def Let_def)
    with ob(1) show ?thesis by blast
  next
    case False
    with ob(1,2) have "so_key ob = userId @ ''/'' @ ld_path d
        \<and> ld_publicUrl d = getPublicUrl b (so_key ob)"
      unfolding d by (simp add: toDocument_def Let_def)
    with ob(1) show ?thesis by blast
  qed
  have ui: "doc_id (toUiDocument d) = ld_path d" "doc_path (toUiDocument d) = Some (ld_path d)"
    by (simp_all add: toUiDocument_def)
  have base: "split_pop CHR ''/'' (ld_path d) = ld_path d"
    using noslash by (rule split_pop_no_sep)
  have share: "handleShare (Some userId) (toUiDocument d) settings shareToken rowId now isProduction
             origin b = (Inr url, b')
           \<longrightarrow> sh_document_path (last (document_shares b')) = ld_path d"
    using nonempty
    by (auto simp: handleShare_def insert_share_def toUiDocument_def Let_def
             split: if_splits option.splits sum.splits)
  have trash: "moveToTrash uuid now2 userId (ld_path d) b = Inr b2
           \<longrightarrow> dr_document_path (last (deleted_documents b2)) = ld_path d"
    by (auto simp: moveToTrash_def Let_def split: if_splits option.splits)
  from noslash loc ui base share trash show ?thesis by blast
qed

theorem listed_path_is_bare_filename_witness:
  "listUserDocuments ''u1'' backend_locker = Inr [report_listed, passport_listed]
   \<and> CHR ''/'' \<notin> set (ld_path passport_listed)
   \<and> so_key private_object = ''u1'' @ ''/private/'' @ ld_path passport_listed
   \<and> doc_path (toUiDocument passport_listed) = Some (ld_path passport_listed)
   \<and> split_pop CHR ''/'' (ld_path passport_listed) = ld_path passport_listed"
proof -
  have lst: "listUserDocuments ''u1'' backend_locker = Inr [report_listed, passport_listed]"
    by (rule list_locker)
  have mem: "passport_listed \<in> set [report_listed, passport_listed]" by simp
  have key: "so_key private_object = ''u1'' @ ''/private/'' @ ld_path passport_listed"
    by (simp add: private_object_def passport_listed_def)
  from listed_path_is_bare_filename [OF lst mem] key lst
  show ?thesis by blast
qed

text \<open>
  C2. Every entry of the private listing that passes the filter of
  \<open>listUserDocuments\<close> is returned with its category set to \<open>private\<close>,
  whatever category token its file name carries, and every returned entry whose public
  URL lies under \<open>userId/private/\<close> has category \<open>private\<close>. \<open>handleShare\<close>
  on such a document, and on any document whose category is \<open>private\<close>, throws
  before the insert: the error is that private documents cannot be shared (or that the
  user is not authenticated, when nobody is signed in), and the backend is unchanged.
\<close>

theorem private_listing_and_sharing:
  assumes lst: "listUserDocuments userId b = Inr docs"
    and priv: "storage_list StorageListPrivate (userId @ ''/private'') b = Inr privateData"
    and obj: "obj \<in> set privateData" "keepObject (deletedPaths userId b) (obj, True)"
  shows "toDocument userId b (obj, True) \<in> set docs
       \<and> ld_path (toDocument userId b (obj, True)) = fo_name obj
       \<and> ld_category (toDocument userId b (obj, True)) = ''private''
       \<and> (d \<in> set docs \<and> ld_publicUrl d = getPublicUrl b (userId @ ''/private/'' @ ld_path d)
            \<longrightarrow> ld_category d = ''private'')
       \<and> handleShare (Some userId) (toUiDocument (toDocument userId b (obj, True))) settings
            shareToken rowId now isProduction origin b2
           = (Inl (Error ''Private documents cannot be shared''), b2)
       \<and> (doc_category doc = ''private'' \<longrightarrow>
            handleShare user doc settings shareToken rowId now isProduction origin b2
              = (Inl (case user of None \<Rightarrow> Error ''User not authenticated''
                      | Some u \<Rightarrow> Error ''Private documents cannot be shared''), b2))"
proof -
  obtain regularData where reg: "storage_list StorageListRegular userId b = Inr regularData"
      and docs: "docs = map (toDocument userId b)
                   (filter (keepObject (deletedPaths userId b)) (allData userId regularData b))"
    using lst by (auto simp: listUserDocuments_def split: sum.splits)
  have "(obj, True) \<in> set (allData userId regularData b)"
    using priv obj(1) by (simp add: allData_def Let_def)
  with obj(2) have listed: "toDocument userId b (obj, True) \<in> set docs"
    unfolding docs by auto
  have path: "ld_path (toDocument userId b (obj, True)) = fo_name obj"
    and cat: "ld_category (toDocument userId b (obj, True)) = ''private''"
    by (simp_all add: toDocument_def Let_def)
  have rev: "d \<in> set docs \<and> ld_publicUrl d = getPublicUrl b (userId @ ''/private/'' @ ld_path d)
            \<longrightarrow> ld_category d = ''private''"
  proof
    assume a: "d \<in> set docs \<and> ld_publicUrl d = getPublicUrl b (userId @ ''/private/'' @ ld_path d)"
    with listUserDocuments_entry [OF lst, of d] obtain o2 isPrivate where
        d: "d = toDocument userId b (o2, isPrivate)" by blast
    show "ld_category d = ''private''"
    proof (cases isPrivate)
      case True
      then show ?thesis unfolding d by (simp add: toDocument_def Let_def)
    next
      case False
      with a d have "getPublicUrl b (userId @ ''/'' @ fo_name o2)
                   = getPublicUrl b (userId @ ''/private/'' @ fo_name o2)"
        by (simp add: toDocument_def Let_def)
      with private_url_differs show ?thesis by blast
    qed
  qed
  have "doc_category (toUiDocument (toDocument userId b (obj, True))) = ''private''"
    using cat by (simp add: toUiDocument_def)
  from handleShare_private [OF this]
  have share: "handleShare (Some userId) (toUiDocument (toDocument userId b (obj, True))) settings
            shareToken rowId now isProduction origin b2
           = (Inl (Error ''Private documents cannot be shared''), b2)"
    by simp
  have any: "doc_category doc = ''private'' \<longrightarrow>
            handleShare user doc settings shareToken rowId now isProduction origin b2
              = (Inl (case user of None \<Rightarrow> Error ''User not authenticated''
                      | Some u \<Rightarrow> Error ''Private documents cannot be shared''), b2)"
    using handleShare_private by blast
  from listed path cat rev share any show ?thesis by blast
qed

theorem private_listing_and_sharing_witness:
  "listUserDocuments ''u1'' backend_locker = Inr [report_listed, passport_listed]
   \<and> toDocument ''u1'' backend_locker
        (\<lparr>fo_name = ''1700000000001_education_Passport.pdf'', fo_size = Some 4096\<rparr>, True)
      = passport_listed
   \<and> fst (parseFileName ''1700000000001_education_Passport.pdf'') = ''education''
   \<and> ld_category passport_listed = ''private''
   \<and> handleShare (Some ''u1'') (toUiDocument passport_listed) share_forever ''tok'' ''s1'' 5000
        True ''http://localhost:5173'' backend_locker
      = (Inl (Error ''Private documents cannot be shared''), backend_locker)"
proof -
  let ?obj = "\<lparr>fo_name = ''1700000000001_education_Passport.pdf'', fo_size = Some 4096\<rparr>"
  have lst: "listUserDocuments ''u1'' backend_locker = Inr [report_listed, passport_listed]"
    by (rule list_locker)
  have priv: "storage_list StorageListPrivate (''u1'' @ ''/private'') backend_locker = Inr [?obj]"
    by (simp add: storage_list_def in_folder_def eval_fixtures)
  have mem: "?obj \<in> set [?obj]" by simp
  have keep: "keepObject (deletedPaths ''u1'' backend_locker) (?obj, True)"
    by (simp add: keepObject_def deletedPaths_def select_deleted_def size_or_0_def eval_fixtures)
  have conv: "toDocument ''u1'' backend_locker (?obj, True) = passport_listed"
    by (simp add: eval_lifecycle eval_fixtures underscores_to_spaces_def is_word_def is_alnum_def)
  have tok: "fst (parseFileName ''1700000000001_education_Passport.pdf'') = ''education''"
    by (simp add: parseFileName_def)
  note t = private_listing_and_sharing [OF lst priv mem keep, of passport_listed share_forever
      "''tok''" "''s1''" 5000 True "''http://localhost:5173''" backend_locker
      "toUiDocument passport_listed" "Some ''u1''"]
  from t have c: "ld_category (toDocument ''u1'' backend_locker (?obj, True)) = ''private''"
    by blast
  from t have s: "handleShare (Some ''u1'')
        (toUiDocument (toDocument ''u1'' backend_locker (?obj, True))) share_forever ''tok'' ''s1''
        5000 True ''http://localhost:5173'' backend_locker
      = (Inl (Error ''Private documents cannot be shared''), backend_locker)"
    by blast
  from lst conv tok c s show ?thesis by (simp only: conv simp_thms)
qed

text \<open>
  C1, as amended. Take a deletion marker of the user. When the marker query of
  \<open>listUserDocuments\<close> succeeds, no returned entry has the marker's
  \<open>document_name\<close> as its path; \<open>listUserTrash\<close> returns the entry of the marker,
  with the marker's id and \<open>document_path\<close>, as many times as the table holds the
  marker's id for the user (once, the id being the primary key). After
  \<open>restoreFromTrash\<close> with the marker's id the bucket is unchanged, the marker is
  gone, and every listed object with that name which passes the placeholder filter is
  returned by \<open>listUserDocuments\<close> again, provided no other marker of the user
  carries the name. A marker inserted by \<open>moveToTrash\<close> has the last segment of the
  path as its \<open>document_name\<close>, and the insert does not touch the bucket.
\<close>

theorem marker_hides_restore_shows:
  assumes ok: "fault b DeletedSelectNames = None"
    and row: "m \<in> set (deleted_documents b)" "dr_user_id m = userId"
  shows "(listUserDocuments userId b = Inr docs \<longrightarrow> dr_document_name m \<notin> ld_path ` set docs)
       \<and> (listUserTrash userId b = Inr trash \<longrightarrow>
            trashItem userId b m \<in> set trash
            \<and> ti_id (trashItem userId b m) = dr_id m
            \<and> ti_path (trashItem userId b m) = dr_document_path m
            \<and> length (filter (\<lambda>t. ti_id t = dr_id m) trash)
                = length (filter (\<lambda>x. dr_id x = dr_id m \<and> dr_user_id x = userId)
                            (deleted_documents b)))
       \<and> (restoreFromTrash userId (dr_id m) b = Inr b' \<longrightarrow>
            bucket b' = bucket b
            \<and> m \<notin> set (deleted_documents b')
            \<and> (storage_list StorageListRegular userId b = Inr regularData
                \<and> (obj, isPrivate) \<in> set (allData userId regularData b)
                \<and> fo_name obj = dr_document_name m
                \<and> keepObject [] (obj, isPrivate)
                \<and> list_all (\<lambda>x. dr_user_id x = userId \<and> dr_document_name x = dr_document_name m
                                 \<longrightarrow> dr_id x = dr_id m) (deleted_documents b)
               \<longrightarrow> (\<exists>docs'. listUserDocuments userId b' = Inr docs'
                      \<and> toDocument userId b (obj, isPrivate) \<in> set docs')))
       \<and> (moveToTrash uuid now userId path b0 = Inr b1 \<longrightarrow>
            (\<exists>m'. deleted_documents b1 = deleted_documents b0 @ [m'] \<and> dr_id m' = uuid
               \<and> dr_user_id m' = userId \<and> dr_document_path m' = path
               \<and> dr_document_name m' = split_pop CHR ''/'' path \<and> bucket b1 = bucket b0))"
proof (intro conjI impI)
  assume l: "listUserDocuments userId b = Inr docs"
  have "dr_document_name m \<in> set (deletedPaths userId b)"
    unfolding deletedPaths_ok [OF ok] using row by auto
  with listed_not_deleted [OF l] show "dr_document_name m \<notin> ld_path ` set docs" by auto
next
  assume t: "listUserTrash userId b = Inr trash"
  show "trashItem userId b m \<in> set trash"
    unfolding listUserTrash_items [OF t] using row by simp
  show "ti_id (trashItem userId b m) = dr_id m" "ti_path (trashItem userId b m) = dr_document_path m"
    by (simp_all add: trashItem_fields)
  show "length (filter (\<lambda>t. ti_id t = dr_id m) trash)
          = length (filter (\<lambda>x. dr_id x = dr_id m \<and> dr_user_id x = userId) (deleted_documents b))"
    by (rule trash_count [OF t])
next
  assume r: "restoreFromTrash userId (dr_id m) b = Inr b'"
  then show "bucket b' = bucket b" "m \<notin> set (deleted_documents b')"
    using row by (auto simp: restoreFromTrash_def split: option.splits)
next
  assume r: "restoreFromTrash userId (dr_id m) b = Inr b'"
  assume "storage_list StorageListRegular userId b = Inr regularData
        \<and> (obj, isPrivate) \<in> set (allData userId regularData b)
        \<and> fo_name obj = dr_document_name m
        \<and> keepObject [] (obj, isPrivate)
        \<and> list_all (\<lambda>x. dr_user_id x = userId \<and> dr_document_name x = dr_document_name m
                         \<longrightarrow> dr_id x = dr_id m) (deleted_documents b)"
  then show "\<exists>docs'. listUserDocuments userId b' = Inr docs'
                      \<and> toDocument userId b (obj, isPrivate) \<in> set docs'"
    using restore_lists_again [OF ok r] by blast
next
  assume "moveToTrash uuid now userId path b0 = Inr b1"
  then show "\<exists>m'. deleted_documents b1 = deleted_documents b0 @ [m'] \<and> dr_id m' = uuid
               \<and> dr_user_id m' = userId \<and> dr_document_path m' = path
               \<and> dr_document_name m' = split_pop CHR ''/'' path \<and> bucket b1 = bucket b0"
    by (rule moveToTrash_row)
qed

theorem marker_hides_restore_shows_witness:
  "listUserDocuments ''u1'' backend_trashed = Inr []
   \<and> listUserTrash ''u1'' backend_trashed = Inr [resume_trash_item]
   \<and> trashItem ''u1'' backend_trashed marker_resume \<in> set [resume_trash_item]
   \<and> length (filter (\<lambda>t. ti_id t = ''m1'') [resume_trash_item]) = 1
   \<and> restoreFromTrash ''u1'' ''m1'' backend_trashed = Inr backend_resume
   \<and> bucket backend_resume = bucket backend_trashed
   \<and> listUserDocuments ''u1'' backend_resume = Inr [resume_listed]
   \<and> ld_path resume_listed = dr_document_name marker_resume"
proof -
  have ok: "fault backend_trashed DeletedSelectNames = None" by (simp add: eval_fixtures)
  have row: "marker_resume \<in> set (deleted_documents backend_trashed)"
    by (simp add: eval_fixtures)
  have usr: "dr_user_id marker_resume = ''u1''" by (simp add: marker_resume_def)
  have ident: "dr_id marker_resume = ''m1''" by (simp add: marker_resume_def)
  note t = marker_hides_restore_shows [OF ok row usr, where trash = "[resume_trash_item]"
      and b' = backend_resume]
  from t trash_trashed have c1: "trashItem ''u1'' backend_trashed marker_resume \<in> set [resume_trash_item]"
    by blast
  from t restore_trashed ident have c2: "bucket backend_resume = bucket backend_trashed"
    by simp
  have c3: "length (filter (\<lambda>t. ti_id t = ''m1'') [resume_trash_item]) = 1"
    by (simp add: resume_trash_item_def)
  have c4: "ld_path resume_listed = dr_document_name marker_resume"
    by (simp add: resume_listed_def marker_resume_def)
  from list_trashed trash_trashed c1 c3 restore_trashed c2 list_resume c4
  show ?thesis by (intro conjI)
qed

text \<open>
  C1 as stated fails when the marker query inside \<open>listUserDocuments\<close> fails: the
  error is logged, the set of deleted names is left empty, and the trashed document is
  listed as active although its marker exists.
\<close>

theorem marker_query_failure_counterexample:
  "marker_resume \<in> set (deleted_documents backend_trashed_fault)
   \<and> dr_user_id marker_resume = ''u1''
   \<and> dr_document_path marker_resume = ''1700000000000_education_Resume_2024.pdf''
   \<and> listUserDocuments ''u1'' backend_trashed_fault = Inr [resume_listed]
   \<and> ld_path resume_listed = ''1700000000000_education_Resume_2024.pdf''"
  by (simp add: eval_lifecycle eval_fixtures underscores_to_spaces_def is_word_def is_alnum_def)

text \<open>
  C7 does not hold of the code. \<open>handleDelete\<close> on a private document calls
  \<open>deletePermanent\<close> with the document's id, which is its file name;
  \<open>deletePermanent\<close> looks for a deletion marker with that id, finds none and throws,
  and \<open>handleDelete\<close> catches the error. No marker is created, but the object stays
  in the bucket and the document stays in the active list.
\<close>

theorem private_delete_removes_nothing:
  "loadDocuments ''u1'' backend_locker page_empty = (None, page_locker)
   \<and> doc_category (toUiDocument passport_listed) = ''private''
   \<and> handleDelete (Some ''u1'') True ''m9'' 1700000200000
        ''1700000000001_education_Passport.pdf'' page_locker backend_locker
      = (page_locker, backend_locker)
   \<and> private_object \<in> set (bucket backend_locker)
   \<and> listUserDocuments ''u1'' backend_locker = Inr [report_listed, passport_listed]"
proof -
  have trash: "listUserTrash ''u1'' backend_locker = Inr []"
    by (simp add: listUserTrash_def select_deleted_def eval_fixtures)
  have load: "loadDocuments ''u1'' backend_locker page_empty = (None, page_locker)"
    by (simp add: loadDocuments_def list_locker trash page_empty_def page_locker_def)
  have cat: "doc_category (toUiDocument passport_listed) = ''private''"
    by (simp add: toUiDocument_def passport_listed_def)
  have perm: "deletePermanent ''u1'' ''1700000000001_education_Passport.pdf'' backend_locker
      = Inl (SupabaseError ''JSON object requested, multiple (or no) rows returned'')"
    by (simp add: deletePermanent_def single_def eval_fixtures)
  have del: "handleDelete (Some ''u1'') True ''m9'' 1700000200000
        ''1700000000001_education_Passport.pdf'' page_locker backend_locker
      = (page_locker, backend_locker)"
    by (simp add: handleDelete_def perm Let_def page_locker_def toUiDocument_def
          report_listed_def passport_listed_def)
  have obj: "private_object \<in> set (bucket backend_locker)"
    by (simp add: eval_fixtures)
  from load cat del obj list_locker show ?thesis by (intro conjI)
qed

text \<open>
  C8. \<open>purgeOldTrash\<close> selects from the trash listing exactly the paths of the items
  with a non-zero size and a deletion time before the threshold. Every item returned by
  \<open>listUserTrash\<close> has size \<open>0\<close>, so the selection is empty and the purge returns
  the backend as it was: no object is removed, however old the marker. When the trash
  listing fails, the purge fails with the same error.
\<close>

theorem purge_removes_nothing:
  "(p \<in> set (purgeCandidates threshold trash)
      \<longleftrightarrow> (\<exists>t\<in>set trash. ti_path t = p \<and> ti_size t > 0 \<and> ti_deletedAt t < threshold))
   \<and> (listUserTrash userId b = Inr trash2 \<longrightarrow>
        list_all (\<lambda>t. ti_size t = 0) trash2
        \<and> purgeCandidates (now - days * 24 * 60 * 60 * 1000) trash2 = []
        \<and> purgeOldTrash now userId days b = Inr b)
   \<and> (listUserTrash userId b = Inl e \<longrightarrow> purgeOldTrash now userId days b = Inl e)"
proof (intro conjI impI)
  show "p \<in> set (purgeCandidates threshold trash)
      \<longleftrightarrow> (\<exists>t\<in>set trash. ti_path t = p \<and> ti_size t > 0 \<and> ti_deletedAt t < threshold)"
    by (auto simp: purgeCandidates_def)
next
  assume t: "listUserTrash userId b = Inr trash2"
  show z: "list_all (\<lambda>t. ti_size t = 0) trash2" by (rule trash_sizes [OF t])
  show c: "purgeCandidates (now - days * 24 * 60 * 60 * 1000) trash2 = []"
    by (rule purgeCandidates_zero [OF z])
  have "\<And>th. purgeCandidates th trash2 = []"
    by (rule purgeCandidates_zero [OF z])
  then show "purgeOldTrash now userId days b = Inr b"
    by (simp add: purgeOldTrash_def Let_def t)
next
  assume "listUserTrash userId b = Inl e"
  then show "purgeOldTrash now userId days b = Inl e"
    by (simp add: purgeOldTrash_def Let_def)
qed

theorem purge_removes_nothing_witness:
  "listUserTrash ''u1'' backend_trashed = Inr [resume_trash_item]
   \<and> ti_deletedAt resume_trash_item < 1710000000000 - 30 * 24 * 60 * 60 * 1000
   \<and> purgeCandidates (1710000000000 - 30 * 24 * 60 * 60 * 1000) [resume_trash_item] = []
   \<and> purgeOldTrash 1710000000000 ''u1'' 30 backend_trashed = Inr backend_trashed"
proof -
  have old: "ti_deletedAt resume_trash_item < 1710000000000 - 30 * 24 * 60 * 60 * 1000"
    by (simp add: resume_trash_item_def)
  from purge_removes_nothing [of "''zz''" 0 "[]" "''u1''" backend_trashed "[resume_trash_item]"
      1710000000000 30 "Error ''none''"] trash_trashed old
  show ?thesis by simp
qed

section \<open>Categorization\<close>

text \<open>
  C9, as amended. \<open>categorizeDocument\<close> returns \<open>fallbackCategorization\<close> of the
  file name when the API key is absent and whenever the call does not end in a parsed
  suggestion; the fallback's category is one of the six categories and its confidence
  lies in \<open>[0,1]\<close>. A parsed suggestion whose category is one of the six is returned
  unchanged, with the confidence the service gave; one whose category is not a property
  of \<open>categoryMapping\<close> is returned with category \<open>other\<close> and confidence
  \<open>max(0.3, confidence - 0.2)\<close>. So the returned confidence lies in \<open>[0,1]\<close>
  whenever the parsed one does.
\<close>

theorem categorize_recovers_locally:
  "((\<not> apiKeyPresent \<or> (\<forall>s. outcome \<noteq> Parsed s)) \<longrightarrow>
       categorizeDocument apiKeyPresent fileName outcome = fallbackCategorization fileName)
   \<and> cs_category (fallbackCategorization fileName) \<in> set categoryMapping_keys
   \<and> 0 \<le> cs_confidence (fallbackCategorization fileName)
   \<and> cs_confidence (fallbackCategorization fileName) \<le> 1
   \<and> (cs_category s \<in> set categoryMapping_keys \<longrightarrow>
        categorizeDocument True fileName (Parsed s) = s)
   \<and> (\<not> categoryMapping_truthy (cs_category s) \<longrightarrow>
        cs_category (categorizeDocument True fileName (Parsed s)) = ''other''
        \<and> cs_confidence (categorizeDocument True fileName (Parsed s))
            = max (3 / 10) (cs_confidence s - 2 / 10))
   \<and> (0 \<le> cs_confidence s \<and> cs_confidence s \<le> 1 \<longrightarrow>
        0 \<le> cs_confidence (categorizeDocument True fileName (Parsed s))
        \<and> cs_confidence (categorizeDocument True fileName (Parsed s)) \<le> 1)"
proof -
  have a: "(\<not> apiKeyPresent \<or> (\<forall>s. outcome \<noteq> Parsed s)) \<longrightarrow>
       categorizeDocument apiKeyPresent fileName outcome = fallbackCategorization fileName"
    by (cases outcome) (auto simp: categorizeDocument_def)
  have b: "cs_category s \<in> set categoryMapping_keys \<longrightarrow>
        categorizeDocument True fileName (Parsed s) = s"
    by (simp add: categorizeDocument_def categoryMapping_truthy_def)
  have c: "\<not> categoryMapping_truthy (cs_category s) \<longrightarrow>
        cs_category (categorizeDocument True fileName (Parsed s)) = ''other''
        \<and> cs_confidence (categorizeDocument True fileName (Parsed s))
            = max (3 / 10) (cs_confidence s - 2 / 10)"
    by (simp add: categorizeDocument_def)
  have d: "0 \<le> cs_confidence s \<and> cs_confidence s \<le> 1 \<longrightarrow>
        0 \<le> cs_confidence (categorizeDocument True fileName (Parsed s))
        \<and> cs_confidence (categorizeDocument True fileName (Parsed s)) \<le> 1"
    by (auto simp: categorizeDocument_def max_def)
  from a fallback_range [of fileName] b c d show ?thesis by blast
qed

theorem categorize_recovers_locally_witness:
  "categorizeDocument False ''Semester_Result.pdf'' (Parsed percent_suggestion)
     = fallbackCategorization ''Semester_Result.pdf''
   \<and> categorizeDocument True ''Semester_Result.pdf'' (ResponseNotOk 503)
     = fallbackCategorization ''Semester_Result.pdf''
   \<and> cs_category (fallbackCategorization ''Semester_Result.pdf'') = ''education''
   \<and> cs_confidence (fallbackCategorization ''Semester_Result.pdf'') = 7 / 10
   \<and> categorizeDocument True ''Semester_Result.pdf'' (Parsed percent_suggestion)
     = percent_suggestion"
proof -
  have k: "cs_category percent_suggestion \<in> set categoryMapping_keys"
    by (simp add: percent_suggestion_def categoryMapping_keys_def)
  have f: "cs_category (fallbackCategorization ''Semester_Result.pdf'') = ''education''
         \<and> cs_confidence (fallbackCategorization ''Semester_Result.pdf'') = 7 / 10"
    by (simp add: fallbackCategorization_def toLowerCase_def lower_char_def Let_def)
  from categorize_recovers_locally [of False "Parsed percent_suggestion" "''Semester_Result.pdf''"
         percent_suggestion]
       categorize_recovers_locally [of True "ResponseNotOk 503" "''Semester_Result.pdf''"
         percent_suggestion] k f
  show ?thesis by simp
qed

text \<open>
  C9 as stated fails: the confidence of a parsed suggestion is not checked, and a
  service that answers with a percentage is passed through.
\<close>

theorem confidence_out_of_range_counterexample:
  "cs_category (categorizeDocument True ''Semester_Result.pdf'' (Parsed percent_suggestion))
     = ''education''
   \<and> cs_confidence (categorizeDocument True ''Semester_Result.pdf'' (Parsed percent_suggestion))
     = 95
   \<and> \<not> (95::rat) \<le> 1"
  by (simp add: categorizeDocument_def categoryMapping_truthy_def categoryMapping_keys_def
        percent_suggestion_def)

end
